theory Spec2Isabelle
  imports Complex_Main
begin

section \<open>Data model\<close>

text \<open>
  The records follow the interfaces of the frontend type file (\<open>CleaningEvent\<close>,
  \<open>Alert\<close>, \<open>Bus\<close>, \<open>User\<close>, \<open>AnalysisResponse\<close>) and the fields that
  \<open>create_event\<close> reads and writes in \<open>backend/app/api/events.py.bak\<close>. A field
  \<open>x\<close> of a source type is written with a short prefix of its type
  (\<open>e_bus_id\<close>, \<open>a_tipo\<close>), since one theory cannot hold two fields of one name.
  Identifiers are natural numbers, timestamps are integers (milliseconds), and a
  confidence is a rational number standing for the source's float.
\<close>

datatype UserRole = ADMIN | SUP | OPER

datatype CleaningState = CLEAN | DIRTY | UNCERTAIN

datatype Origen = Edge | Server | Manual

text \<open>The literal union \<open>'repetido' | 'muy_sucio' | 'dudoso_recurrente'\<close> of
  \<open>Alert.tipo\<close>; the specification calls the three kinds \<open>repeated_dirty\<close>,
  \<open>very_dirty\<close> and \<open>recurrent_uncertain\<close>.\<close>

datatype AlertType = Repetido | Muy_sucio | Dudoso_recurrente

text \<open>The literal union \<open>'info' | 'warn' | 'critical'\<close> of \<open>Alert.nivel\<close>.\<close>

datatype AlertLevel = Info | Warn | Critical

record User =
  u_id :: nat
  u_nombre :: string
  u_email :: string
  u_rol :: UserRole
  u_activo :: bool

record Bus =
  b_id :: nat
  b_ppu :: string
  b_alias :: "string option"
  b_activo :: bool

record IssuesPayload =
  ip_issues :: "string list option"
  ip_suggestions :: "string list option"

record CleaningEvent =
  e_id :: nat
  e_bus_id :: nat
  e_user_id :: nat
  e_estado :: CleaningState
  e_confidence :: "rat option"
  e_observaciones :: "string option"
  e_imagen_thumb_url :: "string option"
  e_origen :: Origen
  e_issues :: "IssuesPayload option"
  e_created_at :: int

text \<open>The request body \<open>CleaningEventCreate\<close>: the fields \<open>create_event\<close> reads
  from \<open>event_data\<close>.\<close>

record CleaningEventCreate =
  r_bus_id :: nat
  r_estado :: CleaningState
  r_confidence :: "rat option"
  r_observaciones :: "string option"
  r_imagen_thumb_url :: "string option"
  r_origen :: Origen
  r_issues :: "IssuesPayload option"

record Alert =
  a_id :: nat
  a_bus_id :: nat
  a_tipo :: AlertType
  a_nivel :: AlertLevel
  a_detalle :: string
  a_created_at :: int
  a_resolved_by :: "nat option"
  a_resolved_at :: "int option"

text \<open>The \<open>.value\<close> of each enumeration member, as the wire carries it.\<close>

fun CleaningState_value :: "CleaningState \<Rightarrow> string" where
  "CleaningState_value CLEAN = ''clean''"
| "CleaningState_value DIRTY = ''dirty''"
| "CleaningState_value UNCERTAIN = ''uncertain''"

fun AlertType_value :: "AlertType \<Rightarrow> string" where
  "AlertType_value Repetido = ''repetido''"
| "AlertType_value Muy_sucio = ''muy_sucio''"
| "AlertType_value Dudoso_recurrente = ''dudoso_recurrente''"

fun AlertLevel_value :: "AlertLevel \<Rightarrow> string" where
  "AlertLevel_value Info = ''info''"
| "AlertLevel_value Warn = ''warn''"
| "AlertLevel_value Critical = ''critical''"

section \<open>Errors, notifications and effects\<close>

text \<open>Every exception of the source is a value. \<open>HTTPException\<close> carries its status
  code and detail; \<open>UnboundLocalError\<close> is what Python raises when \<open>manager\<close> is read
  in the second \<open>try\<close> block although the first one failed before binding it;
  \<open>CancelledError\<close> is \<open>asyncio.CancelledError\<close>, which an \<open>await\<close> raises when the
  request is cancelled.\<close>

datatype error =
    HTTPException nat string
  | StorageError
  | DeliveryError
  | UnboundLocalError
  | OtherError string
  | CancelledError

text \<open>The instances of Python's \<open>Exception\<close>: what \<open>except Exception\<close> catches.
  \<open>asyncio.CancelledError\<close> derives from \<open>BaseException\<close> only.\<close>

fun is_Exception :: "error \<Rightarrow> bool" where
  "is_Exception CancelledError = False"
| "is_Exception e = True"

text \<open>The JSON values of a notification's \<open>data\<close> dictionary. \<open>JTime t\<close> stands
  for the string \<open>created_at.isoformat()\<close> of the timestamp \<open>t\<close>.\<close>

datatype json = JNull | JInt int | JNum rat | JStr string | JTime int

text \<open>A notification is the dictionary \<open>{"type": ..., "data": {...}}\<close> handed to
  \<open>manager.broadcast\<close>; \<open>data\<close> keeps its keys in the order the source writes them.\<close>

record ws_message =
  msg_type :: string
  msg_data :: "(string \<times> json) list"

fun json_of_confidence :: "rat option \<Rightarrow> json" where
  "json_of_confidence None = JNull"
| "json_of_confidence (Some c) = JNum c"

definition event_created_msg :: "Bus \<Rightarrow> User \<Rightarrow> CleaningEvent \<Rightarrow> ws_message" where
  "event_created_msg bus current_user event =
     \<lparr> msg_type = ''event.created'',
       msg_data =
         [ (''id'', JInt (int (e_id event))),
           (''bus_id'', JInt (int (e_bus_id event))),
           (''bus_ppu'', JStr (b_ppu bus)),
           (''user_nombre'', JStr (u_nombre current_user)),
           (''estado'', JStr (CleaningState_value (e_estado event))),
           (''confidence'', json_of_confidence (e_confidence event)),
           (''created_at'', JTime (e_created_at event)) ] \<rparr>"

definition alert_created_msg :: "Bus \<Rightarrow> Alert \<Rightarrow> ws_message" where
  "alert_created_msg bus alert =
     \<lparr> msg_type = ''alert.created'',
       msg_data =
         [ (''id'', JInt (int (a_id alert))),
           (''bus_id'', JInt (int (a_bus_id alert))),
           (''bus_ppu'', JStr (b_ppu bus)),
           (''tipo'', JStr (AlertType_value (a_tipo alert))),
           (''nivel'', JStr (AlertLevel_value (a_nivel alert))),
           (''detalle'', JStr (a_detalle alert)) ] \<rparr>"

text \<open>What a submission does to the outside, in the order it does it: the commit of
  the event row, a call of \<open>manager.broadcast\<close>, the call of
  \<open>alert_service.check_and_create_alerts\<close> (bus id, event id), and a \<open>print\<close> of a
  caught exception with its prefix.\<close>

datatype effect =
    DbCommit CleaningEvent
  | Broadcast ws_message
  | AlertCheck nat nat
  | Print string error

text \<open>The database tables the endpoint touches, and the log of effects.\<close>

record world =
  buses :: "nat \<rightharpoonup> Bus"
  users :: "nat \<rightharpoonup> User"
  events :: "CleaningEvent list"
  alerts :: "Alert list"
  effects :: "effect list"

text \<open>What the surroundings decide during one submission: the server clock, and
  whether the commit, the refresh after it, the lookup of the WebSocket manager, a
  broadcast of a given message or the insertion of an alert of a given kind raises.\<close>

record env =
  clock :: int
  commit_raises :: "error option"
  refresh_raises :: "error option"
  manager_raises :: "error option"
  broadcast_raises :: "ws_message \<Rightarrow> error option"
  alert_create_raises :: "AlertType \<Rightarrow> error option"

text \<open>\<open>alert_service.check_and_create_alerts(session, bus.id, event)\<close> is not part
  of the sources at hand. The orchestrator takes it as a parameter: a function of the
  surroundings, the alert table, the event table (read only), the bus id and the new
  event, giving the alert table afterwards and either the exception raised or the
  alerts created.\<close>

type_synonym alert_service =
  "env \<Rightarrow> Alert list \<Rightarrow> CleaningEvent list \<Rightarrow> nat \<Rightarrow> CleaningEvent
     \<Rightarrow> Alert list \<times> (error + Alert list)"

section \<open>The orchestrator: \<open>create_event\<close>\<close>

text \<open>The database assigns the next identifier: one more than the largest in use.\<close>

definition next_id :: "nat list \<Rightarrow> nat" where
  "next_id ids = Suc (fold max ids 0)"

definition log_effects :: "effect list \<Rightarrow> world \<Rightarrow> world" where
  "log_effects es w = w\<lparr>effects := effects w @ es\<rparr>"

text \<open>The row built from the request body and the authenticated user (lines 60 to
  69), with the identifier and timestamp the database gives it on commit and refresh.\<close>

definition new_event :: "env \<Rightarrow> world \<Rightarrow> CleaningEventCreate \<Rightarrow> User \<Rightarrow> CleaningEvent" where
  "new_event ev w event_data current_user =
     \<lparr> e_id = next_id (map e_id (events w)),
       e_bus_id = r_bus_id event_data,
       e_user_id = u_id current_user,
       e_estado = r_estado event_data,
       e_confidence = r_confidence event_data,
       e_observaciones = r_observaciones event_data,
       e_imagen_thumb_url = r_imagen_thumb_url event_data,
       e_origen = r_origen event_data,
       e_issues = r_issues event_data,
       e_created_at = clock ev \<rparr>"

text \<open>\<open>try: ... except Exception as e: print(f"<prefix>: {e}")\<close> around a block. A
  block gives the world it left and the exception it raised, if any. An instance of
  \<open>Exception\<close> is printed and dropped; any other exception goes on to the caller.\<close>

definition except_Exception :: "string \<Rightarrow> world \<times> error option \<Rightarrow> world \<times> error option" where
  "except_Exception prefix r =
     (case r of
        (w, None) \<Rightarrow> (w, None)
      | (w, Some e) \<Rightarrow>
          (if is_Exception e then (log_effects [Print prefix e] w, None) else (w, Some e)))"

text \<open>\<open>await manager.broadcast(msg)\<close>: the call is logged, and it may raise.\<close>

definition broadcast :: "env \<Rightarrow> ws_message \<Rightarrow> world \<Rightarrow> world \<times> error option" where
  "broadcast ev msg w = (log_effects [Broadcast msg] w, broadcast_raises ev msg)"

text \<open>The body of the first \<open>try\<close> block (lines 77 to 90): fetch the manager,
  broadcast \<open>event.created\<close>.\<close>

definition event_block :: "env \<Rightarrow> Bus \<Rightarrow> User \<Rightarrow> CleaningEvent \<Rightarrow> world \<Rightarrow> world \<times> error option" where
  "event_block ev bus current_user event w =
     (case manager_raises ev of
        Some e \<Rightarrow> (w, Some e)
      | None \<Rightarrow> broadcast ev (event_created_msg bus current_user event) w)"

text \<open>The first \<open>try\<close> block with its handler (lines 76 to 93).\<close>

definition notify_event :: "env \<Rightarrow> Bus \<Rightarrow> User \<Rightarrow> CleaningEvent \<Rightarrow> world \<Rightarrow> world \<times> error option" where
  "notify_event ev bus current_user event w =
     except_Exception ''Error broadcasting event'' (event_block ev bus current_user event w)"

text \<open>The loop of lines 98 to 111. An empty list is falsy, so nothing happens for
  it; otherwise the first alert reads \<open>manager\<close>, which is unbound when the first block
  failed before binding it. An exception leaves the loop.\<close>

fun broadcast_alerts :: "env \<Rightarrow> Bus \<Rightarrow> Alert list \<Rightarrow> world \<Rightarrow> world \<times> error option" where
  "broadcast_alerts ev bus [] w = (w, None)"
| "broadcast_alerts ev bus (alert # rest) w =
     (case manager_raises ev of
        Some _ \<Rightarrow> (w, Some UnboundLocalError)
      | None \<Rightarrow>
          (case broadcast ev (alert_created_msg bus alert) w of
             (w1, Some e) \<Rightarrow> (w1, Some e)
           | (w1, None) \<Rightarrow> broadcast_alerts ev bus rest w1))"

text \<open>The body of the second \<open>try\<close> block (lines 97 to 111): call the alert service,
  then broadcast one \<open>alert.created\<close> per alert it returned.\<close>

definition alert_block :: "alert_service \<Rightarrow> env \<Rightarrow> Bus \<Rightarrow> CleaningEvent \<Rightarrow> world \<Rightarrow> world \<times> error option" where
  "alert_block svc ev bus event w =
     (case svc ev (alerts w) (events w) (b_id bus) event of
        (store, result) \<Rightarrow>
          (let w1 = log_effects [AlertCheck (b_id bus) (e_id event)] (w\<lparr>alerts := store\<rparr>) in
           case result of
             Inl e \<Rightarrow> (w1, Some e)
           | Inr created \<Rightarrow> broadcast_alerts ev bus created w1))"

text \<open>The second \<open>try\<close> block with its handler (lines 96 to 114).\<close>

definition notify_alerts :: "alert_service \<Rightarrow> env \<Rightarrow> Bus \<Rightarrow> CleaningEvent \<Rightarrow> world \<Rightarrow> world \<times> error option" where
  "notify_alerts svc ev bus event w =
     except_Exception ''Error checking alerts'' (alert_block svc ev bus event w)"

text \<open>\<open>create_event\<close> (lines 28 to 116). A missing bus raises 404 before anything is
  written. A commit that raises propagates and leaves the tables as they were. After
  the commit the row is stored; a refresh that raises propagates. Everything after the
  refresh is inside one of the two \<open>try\<close> blocks, and what a block does not catch
  propagates.\<close>

definition create_event ::
  "alert_service \<Rightarrow> env \<Rightarrow> world \<Rightarrow> CleaningEventCreate \<Rightarrow> User \<Rightarrow> world \<times> (error + CleaningEvent)" where
  "create_event svc ev w event_data current_user =
     (case buses w (r_bus_id event_data) of
        None \<Rightarrow> (w, Inl (HTTPException 404 ''Bus not found''))
      | Some bus \<Rightarrow>
          (case commit_raises ev of
             Some e \<Rightarrow> (w, Inl e)
           | None \<Rightarrow>
               (let event = new_event ev w event_data current_user;
                    w1 = log_effects [DbCommit event] (w\<lparr>events := events w @ [event]\<rparr>)
                in case refresh_raises ev of
                     Some e \<Rightarrow> (w1, Inl e)
                   | None \<Rightarrow>
                       (case notify_event ev bus current_user event w1 of
                          (w2, Some e) \<Rightarrow> (w2, Inl e)
                        | (w2, None) \<Rightarrow>
                            (case notify_alerts svc ev bus event w2 of
                               (w3, Some e) \<Rightarrow> (w3, Inl e)
                             | (w3, None) \<Rightarrow> (w3, Inr event))))))"


section \<open>The analysis endpoint: \<open>_generate_suggestions\<close> and \<open>analyze_image\<close>\<close>

text \<open>Strings are byte lists (UTF-8). \<open>lower\<close> folds the ASCII capitals; the
  needles below are ASCII words, and a UTF-8 byte below 128 is always an ASCII
  character, so byte-wise search finds a needle exactly where Python's \<open>in\<close> does.
  Python's \<open>lower\<close> folds capitals beyond ASCII as well; that bears on which suggestion
  an issue written with such capitals gets, never on how many suggestions there are.\<close>

definition char_lower :: "char \<Rightarrow> char" where
  "char_lower c =
     (if (65::nat) \<le> of_char c \<and> of_char c \<le> (90::nat)
      then char_of (of_char c + (32::nat)) else c)"

definition lower :: "string \<Rightarrow> string" where
  "lower s = map char_lower s"

fun contains :: "string \<Rightarrow> string \<Rightarrow> bool" where
  "contains needle [] = (needle = [])"
| "contains needle (c # cs) =
     (take (length needle) (c # cs) = needle \<or> contains needle cs)"

text \<open>The \<open>if\<close>/\<open>elif\<close> chain of the loop body, in the source's order. The bytes
  EC B9 A8 and EC B9 98 are the non-ASCII characters the source file holds
  at those places.\<close>

definition suggestion_for :: "string \<Rightarrow> string" where
  "suggestion_for issue =
     (if contains ''papel'' (lower issue) \<or> contains ''basura'' (lower issue)
        then ''Recoger y desechar basura del piso y asientos''
      else if contains ''ventana'' (lower issue) \<or> contains ''cristal'' (lower issue)
        then ''Limpiar ventanas con pa'' @ [CHR 0xEC, CHR 0xB9, CHR 0xA8]
               @ ''o y limpiador de cristales''
      else if contains ''mancha'' (lower issue)
        then ''Aplicar limpiador y frotar manchas con pa''
               @ [CHR 0xEC, CHR 0xB9, CHR 0xA8] @ ''o''
      else if contains ''polvo'' (lower issue)
        then ''Pasar pa'' @ [CHR 0xEC, CHR 0xB9, CHR 0xA8]
               @ ''o seco o aspirar superficies con polvo''
      else if contains ''pasamano'' (lower issue)
        then ''Limpiar pasamanos con desinfectante''
      else ''Revisar y limpiar '' @ [CHR 0xEC, CHR 0xB9, CHR 0x98]
               @ ''rea afectada'')"

fun collect_suggestions :: "string list \<Rightarrow> string list \<Rightarrow> string list" where
  "collect_suggestions suggestions [] = suggestions"
| "collect_suggestions suggestions (issue # rest) =
     collect_suggestions (suggestions @ [suggestion_for issue]) rest"

definition generate_suggestions :: "string list \<Rightarrow> string list" where
  "generate_suggestions issues =
     (let suggestions = collect_suggestions [] issues in
      if suggestions = [] then suggestions @ [''Realizar limpieza general del bus'']
      else suggestions)"

record AnalysisResponse =
  ar_estado :: CleaningState
  ar_confidence :: rat
  ar_issues :: "string list"
  ar_suggestions :: "string list"

text \<open>\<open>ml_service.analyze_image\<close> is opaque: a parameter that gives the triple or
  the text of the exception it raised.\<close>

type_synonym ml_service = "string \<Rightarrow> string + (CleaningState \<times> rat \<times> string list)"

definition analyze_image :: "ml_service \<Rightarrow> string \<Rightarrow> error + AnalysisResponse" where
  "analyze_image ml image_base64 =
     (case ml image_base64 of
        Inl e \<Rightarrow> Inl (HTTPException 500 (''Error analyzing image: '' @ e))
      | Inr (state, confidence, issues) \<Rightarrow>
          Inr \<lparr> ar_estado = state, ar_confidence = confidence, ar_issues = issues,
                ar_suggestions = generate_suggestions issues \<rparr>)"

section \<open>The alert rule engine and the alert store\<close>

text \<open>Modelled from the spec: the configuration surface of the rule engine (section 6;
  \<open>alert_service.py\<close> and the settings are missing): window duration, the two
  thresholds, the high-confidence bound and the minimum issue count, all inputs. The
  wording of an alert's detail string, which the specification leaves open, is an input
  too.\<close>

record RuleConfig =
  window_duration :: int
  dirty_threshold :: nat
  uncertain_threshold :: nat
  high_confidence :: rat
  min_issue_count :: nat
  detail_text :: "AlertType \<Rightarrow> string"

text \<open>Modelled from the spec: the defaults of section 6 (72 hours in milliseconds, 2,
  3, 0.65, 2).\<close>

definition default_config :: RuleConfig where
  "default_config =
     \<lparr> window_duration = 72 * 3600 * 1000,
       dirty_threshold = 2,
       uncertain_threshold = 3,
       high_confidence = 65 / 100,
       min_issue_count = 2,
       detail_text = AlertType_value \<rparr>"

text \<open>Modelled from the spec: the Event Store's \<open>recentEventsForBus\<close> (section 4.1;
  the store's code is missing): all events of the bus with creation timestamp at least
  the bound, oldest first.\<close>

definition recentEventsForBus :: "CleaningEvent list \<Rightarrow> nat \<Rightarrow> int \<Rightarrow> CleaningEvent list" where
  "recentEventsForBus evs busId sinceTimestamp =
     sort_key e_created_at
       (filter (\<lambda>e. e_bus_id e = busId \<and> sinceTimestamp \<le> e_created_at e) evs)"

text \<open>Modelled from the spec: the trailing window of the rule engine (sections 4.2 and
  8; \<open>alert_service.py\<close> is missing). The history is read from the store from
  \<open>now - windowDuration\<close> on, and the window keeps what lies in the half-open interval
  \<open>(now - windowDuration, now]\<close>.\<close>

definition window_events :: "RuleConfig \<Rightarrow> int \<Rightarrow> CleaningEvent list \<Rightarrow> nat \<Rightarrow> CleaningEvent list" where
  "window_events cfg now evs busId =
     filter (\<lambda>e. now - window_duration cfg < e_created_at e \<and> e_created_at e \<le> now)
       (recentEventsForBus evs busId (now - window_duration cfg))"

text \<open>Modelled from the spec: the count of events of one state within the window, as
  the repeated-dirty and recurrent-uncertain rules of section 4.2 use it.\<close>

definition window_count :: "RuleConfig \<Rightarrow> int \<Rightarrow> CleaningEvent list \<Rightarrow> nat \<Rightarrow> CleaningState \<Rightarrow> nat" where
  "window_count cfg now evs busId st =
     length (filter (\<lambda>e. e_estado e = st) (window_events cfg now evs busId))"

text \<open>Modelled from the spec: a proposed alert (section 4.2): kind, severity and
  detail; the store adds identifier and timestamp.\<close>

record Proposal =
  pr_tipo :: AlertType
  pr_nivel :: AlertLevel
  pr_detalle :: string

definition propose :: "RuleConfig \<Rightarrow> AlertType \<Rightarrow> AlertLevel \<Rightarrow> Proposal" where
  "propose cfg kind level = \<lparr> pr_tipo = kind, pr_nivel = level, pr_detalle = detail_text cfg kind \<rparr>"

text \<open>Modelled from the spec: the detected-issue count of an event (section 3: the
  detected-issue list is optional), read from the \<open>issues\<close> list of the event's
  \<open>issues\<close> object.\<close>

definition issue_count :: "CleaningEvent \<Rightarrow> nat" where
  "issue_count event =
     (case e_issues event of
        None \<Rightarrow> 0
      | Some payload \<Rightarrow> (case ip_issues payload of None \<Rightarrow> 0 | Some l \<Rightarrow> length l))"

text \<open>Modelled from the spec: the repeated-dirty rule of the table in section 4.2
  (\<open>alert_service.py\<close> is missing): the count of dirty events of the bus within the
  window reaches the threshold; kind \<open>repeated_dirty\<close>, severity \<open>warn\<close>.\<close>

definition rule_repeated_dirty :: "RuleConfig \<Rightarrow> int \<Rightarrow> CleaningEvent list \<Rightarrow> nat \<Rightarrow> Proposal list" where
  "rule_repeated_dirty cfg now evs busId =
     (if dirty_threshold cfg \<le> window_count cfg now evs busId DIRTY
      then [propose cfg Repetido Warn] else [])"

text \<open>Modelled from the spec: the very-dirty rule of the table in section 4.2: the
  current event is dirty, its confidence is at least the high-confidence bound (an event
  without confidence does not qualify) and it has at least the minimum number of
  detected issues; kind \<open>very_dirty\<close>, severity \<open>critical\<close>.\<close>

definition rule_very_dirty :: "RuleConfig \<Rightarrow> CleaningEvent \<Rightarrow> Proposal list" where
  "rule_very_dirty cfg event =
     (if e_estado event = DIRTY
         \<and> (case e_confidence event of None \<Rightarrow> False | Some c \<Rightarrow> high_confidence cfg \<le> c)
         \<and> min_issue_count cfg \<le> issue_count event
      then [propose cfg Muy_sucio Critical] else [])"

text \<open>Modelled from the spec: the recurrent-uncertain rule of the table in section
  4.2: the count of uncertain events within the same window reaches its threshold; kind
  \<open>recurrent_uncertain\<close>, severity \<open>info\<close>.\<close>

definition rule_recurrent_uncertain :: "RuleConfig \<Rightarrow> int \<Rightarrow> CleaningEvent list \<Rightarrow> nat \<Rightarrow> Proposal list" where
  "rule_recurrent_uncertain cfg now evs busId =
     (if uncertain_threshold cfg \<le> window_count cfg now evs busId UNCERTAIN
      then [propose cfg Dudoso_recurrente Info] else [])"

text \<open>Modelled from the spec: the rule engine (section 4.2): the rules are evaluated
  independently on the history that includes the new event, and one event may give
  several proposals. The deduplication check, which section 4.2 leaves to the engine or
  to the store, is made with the insertion (\<open>persist_proposals\<close> below), so a proposal
  here is one that may still be suppressed.\<close>

definition evaluate_rules :: "RuleConfig \<Rightarrow> int \<Rightarrow> CleaningEvent list \<Rightarrow> nat \<Rightarrow> CleaningEvent \<Rightarrow> Proposal list" where
  "evaluate_rules cfg now evs busId event =
     rule_repeated_dirty cfg now evs busId
       @ rule_very_dirty cfg event
       @ rule_recurrent_uncertain cfg now evs busId"

text \<open>Modelled from the spec: the resolution state of an alert (section 3): unresolved
  until a resolution timestamp is set.\<close>

definition is_unresolved :: "Alert \<Rightarrow> bool" where
  "is_unresolved a = (a_resolved_at a = None)"

text \<open>Modelled from the spec: the Alert Store's \<open>hasUnresolved\<close> (section 4.3; the
  store's code is missing).\<close>

definition hasUnresolved :: "Alert list \<Rightarrow> nat \<Rightarrow> AlertType \<Rightarrow> bool" where
  "hasUnresolved store busId kind =
     list_ex (\<lambda>a. a_bus_id a = busId \<and> a_tipo a = kind \<and> is_unresolved a) store"

text \<open>The number of unresolved alerts of a kind for a bus: what the invariant of
  section 3 bounds by one.\<close>

definition unresolved_count :: "Alert list \<Rightarrow> nat \<Rightarrow> AlertType \<Rightarrow> nat" where
  "unresolved_count store busId kind =
     length (filter (\<lambda>a. a_bus_id a = busId \<and> a_tipo a = kind \<and> is_unresolved a) store)"

text \<open>Modelled from the spec: the Alert Store's \<open>create\<close> (section 4.3): it assigns
  the identifier and the timestamp; a new alert is unresolved.\<close>

definition new_alert :: "env \<Rightarrow> Alert list \<Rightarrow> nat \<Rightarrow> Proposal \<Rightarrow> Alert" where
  "new_alert ev store busId p =
     \<lparr> a_id = next_id (map a_id store),
       a_bus_id = busId,
       a_tipo = pr_tipo p,
       a_nivel = pr_nivel p,
       a_detalle = pr_detalle p,
       a_created_at = clock ev,
       a_resolved_by = None,
       a_resolved_at = None \<rparr>"

text \<open>Modelled from the spec: step 3 of the orchestrator (sections 4.2, 4.3 and 4.5):
  each proposal is checked against the store for an unresolved alert of its kind for
  the bus, in one unit with the insertion, and suppressed if there is one; each other
  proposal is persisted on its own. A \<open>StorageError\<close> of \<open>create\<close> ends the stage and
  keeps what was persisted before it.\<close>

fun persist_proposals :: "env \<Rightarrow> nat \<Rightarrow> Proposal list \<Rightarrow> Alert list \<Rightarrow> Alert list \<times> (error + Alert list)" where
  "persist_proposals ev busId [] store = (store, Inr [])"
| "persist_proposals ev busId (p # ps) store =
     (if hasUnresolved store busId (pr_tipo p) then persist_proposals ev busId ps store
      else
        (case alert_create_raises ev (pr_tipo p) of
           Some e \<Rightarrow> (store, Inl e)
         | None \<Rightarrow>
             (let a = new_alert ev store busId p in
              case persist_proposals ev busId ps (store @ [a]) of
                (store', Inl e) \<Rightarrow> (store', Inl e)
              | (store', Inr created) \<Rightarrow> (store', Inr (a # created)))))"

text \<open>Modelled from the spec: \<open>alert_service.check_and_create_alerts\<close>, the rule
  engine followed by the deduplicating persistence, evaluated at the submission's
  clock.\<close>

definition check_and_create_alerts :: "RuleConfig \<Rightarrow> alert_service" where
  "check_and_create_alerts cfg ev store evs busId event =
     persist_proposals ev busId (evaluate_rules cfg (clock ev) evs busId event) store"

text \<open>A sequence of submissions, each with its surroundings, request body and
  authenticated user, run one after the other through \<open>create_event\<close> with the rule
  engine above.\<close>

fun ingest_all :: "RuleConfig \<Rightarrow> world \<Rightarrow> (env \<times> CleaningEventCreate \<times> User) list \<Rightarrow> world" where
  "ingest_all cfg w [] = w"
| "ingest_all cfg w ((ev, event_data, current_user) # rest) =
     ingest_all cfg (fst (create_event (check_and_create_alerts cfg) ev w event_data current_user)) rest"


section \<open>Sample data\<close>

text \<open>One bus, one operator, an empty database; surroundings in which nothing raises,
  surroundings in which every advisory step raises an instance of \<open>Exception\<close>, and
  surroundings in which every broadcast is cancelled; an alert service that creates the
  alerts it is given, and one that raises.\<close>

definition sample_bus :: Bus where
  "sample_bus = \<lparr> b_id = 1, b_ppu = ''ABCD12'', b_alias = None, b_activo = True \<rparr>"

definition sample_user :: User where
  "sample_user = \<lparr> u_id = 7, u_nombre = ''Ana'', u_email = ''ana@example.org'', u_rol = OPER,
                    u_activo = True \<rparr>"

definition sample_world :: world where
  "sample_world = \<lparr> buses = [1 \<mapsto> sample_bus], users = [7 \<mapsto> sample_user], events = [],
                     alerts = [], effects = [] \<rparr>"

definition sample_env :: "int \<Rightarrow> env" where
  "sample_env t = \<lparr> clock = t, commit_raises = None, refresh_raises = None,
                    manager_raises = None,
                    broadcast_raises = (\<lambda>m. None), alert_create_raises = (\<lambda>k. None) \<rparr>"

definition failing_env :: "int \<Rightarrow> env" where
  "failing_env t = \<lparr> clock = t, commit_raises = None, refresh_raises = None,
                    manager_raises = Some DeliveryError,
                    broadcast_raises = (\<lambda>m. Some DeliveryError),
                    alert_create_raises = (\<lambda>k. Some StorageError) \<rparr>"

definition cancelled_env :: "int \<Rightarrow> env" where
  "cancelled_env t = \<lparr> clock = t, commit_raises = None, refresh_raises = None,
                    manager_raises = None,
                    broadcast_raises = (\<lambda>m. Some CancelledError),
                    alert_create_raises = (\<lambda>k. None) \<rparr>"

definition sample_request :: "nat \<Rightarrow> CleaningState \<Rightarrow> rat \<Rightarrow> string list \<Rightarrow> CleaningEventCreate" where
  "sample_request busId st c issues =
     \<lparr> r_bus_id = busId, r_estado = st, r_confidence = Some c, r_observaciones = None,
       r_imagen_thumb_url = None, r_origen = Edge,
       r_issues = Some \<lparr> ip_issues = Some issues, ip_suggestions = None \<rparr> \<rparr>"

definition very_dirty_request :: CleaningEventCreate where
  "very_dirty_request = sample_request 1 DIRTY (4 / 5) [''a'', ''b'', ''c'']"

definition very_dirty_event :: "rat \<Rightarrow> CleaningEvent" where
  "very_dirty_event c =
     \<lparr> e_id = 1, e_bus_id = 1, e_user_id = 7, e_estado = DIRTY, e_confidence = Some c,
       e_observaciones = None, e_imagen_thumb_url = None, e_origen = Edge,
       e_issues = Some \<lparr> ip_issues = Some [''a'', ''b'', ''c''], ip_suggestions = None \<rparr>,
       e_created_at = 1000 \<rparr>"

definition sample_alert :: Alert where
  "sample_alert =
     \<lparr> a_id = 1, a_bus_id = 1, a_tipo = Muy_sucio, a_nivel = Critical,
       a_detalle = ''Bus muy sucio'', a_created_at = 1000,
       a_resolved_by = None, a_resolved_at = None \<rparr>"

definition fixed_alerts :: "Alert list \<Rightarrow> alert_service" where
  "fixed_alerts created ev store evs busId event = (store @ created, Inr created)"

definition raising_service :: "error \<Rightarrow> alert_service" where
  "raising_service x ev store evs busId event = (store, Inl x)"

definition boundary_event :: "int \<Rightarrow> CleaningEvent" where
  "boundary_event t =
     \<lparr> e_id = 5, e_bus_id = 1, e_user_id = 7, e_estado = DIRTY, e_confidence = None,
       e_observaciones = None, e_imagen_thumb_url = None, e_origen = Manual, e_issues = None,
       e_created_at = t \<rparr>"

definition dirty_at :: "int \<Rightarrow> env \<times> CleaningEventCreate \<times> User" where
  "dirty_at t = (sample_env t, sample_request 1 DIRTY (1 / 2) [], sample_user)"

lemmas sample_defs =
  sample_bus_def sample_user_def sample_world_def sample_env_def failing_env_def
  cancelled_env_def
  sample_request_def very_dirty_request_def very_dirty_event_def sample_alert_def
  fixed_alerts_def raising_service_def

lemmas run_defs =
  create_event_def new_event_def next_id_def log_effects_def notify_event_def
  notify_alerts_def event_block_def alert_block_def broadcast_def except_Exception_def
  event_created_msg_def alert_created_msg_def Let_def

lemmas engine_defs =
  check_and_create_alerts_def evaluate_rules_def rule_repeated_dirty_def rule_very_dirty_def
  rule_recurrent_uncertain_def window_count_def window_events_def recentEventsForBus_def
  default_config_def issue_count_def propose_def hasUnresolved_def new_alert_def
  is_unresolved_def

section \<open>Frame and effect lemmas of the orchestrator\<close>

lemma log_effects_simps [simp]:
  "buses (log_effects es w) = buses w"
  "users (log_effects es w) = users w"
  "events (log_effects es w) = events w"
  "alerts (log_effects es w) = alerts w"
  "effects (log_effects es w) = effects w @ es"
  by (simp_all add: log_effects_def)

lemma except_Exception_frame [simp]:
  "buses (fst (except_Exception p r)) = buses (fst r)"
  "users (fst (except_Exception p r)) = users (fst r)"
  "events (fst (except_Exception p r)) = events (fst r)"
  "alerts (fst (except_Exception p r)) = alerts (fst r)"
  by (simp_all add: except_Exception_def split: prod.splits option.splits)

lemma except_Exception_effects:
  "effects (fst (except_Exception p r)) =
     effects (fst r) @
       (case snd r of
          None \<Rightarrow> []
        | Some e \<Rightarrow> (if is_Exception e then [Print p e] else []))"
  by (simp add: except_Exception_def split: prod.splits option.splits)

lemma except_Exception_result:
  "snd (except_Exception p r) =
     (case snd r of
        None \<Rightarrow> None
      | Some e \<Rightarrow> (if is_Exception e then None else Some e))"
  by (simp add: except_Exception_def split: prod.splits option.splits)

lemma broadcast_simps [simp]:
  "fst (broadcast ev msg w) = log_effects [Broadcast msg] w"
  "snd (broadcast ev msg w) = broadcast_raises ev msg"
  by (simp_all add: broadcast_def)

lemma event_block_frame [simp]:
  "buses (fst (event_block ev bus u e w)) = buses w"
  "users (fst (event_block ev bus u e w)) = users w"
  "events (fst (event_block ev bus u e w)) = events w"
  "alerts (fst (event_block ev bus u e w)) = alerts w"
  by (simp_all add: event_block_def split: option.splits)

lemma event_block_effects:
  "effects (fst (event_block ev bus u e w)) =
     effects w @ (case manager_raises ev of
                    Some x \<Rightarrow> []
                  | None \<Rightarrow> [Broadcast (event_created_msg bus u e)])"
  by (simp add: event_block_def split: option.splits)


lemma notify_event_frame [simp]:
  "buses (fst (notify_event ev bus u e w)) = buses w"
  "users (fst (notify_event ev bus u e w)) = users w"
  "events (fst (notify_event ev bus u e w)) = events w"
  "alerts (fst (notify_event ev bus u e w)) = alerts w"
  by (simp_all add: notify_event_def)

lemma notify_event_effects:
  "effects (fst (notify_event ev bus u e w)) =
     effects w
     @ (case manager_raises ev of
          Some x \<Rightarrow> []
        | None \<Rightarrow> [Broadcast (event_created_msg bus u e)])
     @ (case snd (event_block ev bus u e w) of
          None \<Rightarrow> []
        | Some x \<Rightarrow> (if is_Exception x then [Print ''Error broadcasting event'' x] else []))"
  by (simp add: notify_event_def except_Exception_effects event_block_effects)

lemma notify_event_result:
  "snd (notify_event ev bus u e w) =
     (case snd (event_block ev bus u e w) of
        None \<Rightarrow> None
      | Some x \<Rightarrow> (if is_Exception x then None else Some x))"
  by (simp add: notify_event_def except_Exception_result)

lemma broadcast_alerts_frame [simp]:
  "buses (fst (broadcast_alerts ev bus as w)) = buses w"
  "users (fst (broadcast_alerts ev bus as w)) = users w"
  "events (fst (broadcast_alerts ev bus as w)) = events w"
  "alerts (fst (broadcast_alerts ev bus as w)) = alerts w"
  by (induction as arbitrary: w; simp add: broadcast_def split: option.splits)+

lemma broadcast_alerts_Cons:
  "manager_raises ev = None \<Longrightarrow>
   broadcast_alerts ev bus (a # as) w =
     (case broadcast_raises ev (alert_created_msg bus a) of
        Some x \<Rightarrow> (log_effects [Broadcast (alert_created_msg bus a)] w, Some x)
      | None \<Rightarrow> broadcast_alerts ev bus as (log_effects [Broadcast (alert_created_msg bus a)] w))"
  by (simp add: broadcast_def split: option.splits)

lemma broadcast_alerts_shape:
  "\<exists>post. effects (fst (broadcast_alerts ev bus as w)) = effects w @ post
     \<and> (\<forall>x \<in> set post. \<exists>a \<in> set as. x = Broadcast (alert_created_msg bus a))"
proof (induction as arbitrary: w)
  case Nil
  show ?case by simp
next
  case (Cons a as)
  show ?case
  proof (cases "manager_raises ev")
    case (Some x)
    then show ?thesis by simp
  next
    case None
    note bound = this
    show ?thesis
    proof (cases "broadcast_raises ev (alert_created_msg bus a)")
      case (Some x)
      with bound show ?thesis
        by (simp add: broadcast_def)
    next
      case None
      from Cons.IH [of "log_effects [Broadcast (alert_created_msg bus a)] w"]
      obtain post where
        post: "effects (fst (broadcast_alerts ev bus as
                  (log_effects [Broadcast (alert_created_msg bus a)] w)))
            = effects (log_effects [Broadcast (alert_created_msg bus a)] w) @ post"
          "\<forall>x \<in> set post. \<exists>a \<in> set as. x = Broadcast (alert_created_msg bus a)"
        by blast
      have "effects (fst (broadcast_alerts ev bus (a # as) w))
          = effects w @ (Broadcast (alert_created_msg bus a) # post)"
        using bound None post(1) by (simp add: broadcast_def)
      moreover have "\<forall>x \<in> set (Broadcast (alert_created_msg bus a) # post).
          \<exists>a' \<in> set (a # as). x = Broadcast (alert_created_msg bus a')"
        using post(2) by auto
      ultimately show ?thesis by blast
    qed
  qed
qed




lemma alert_block_frame [simp]:
  "buses (fst (alert_block svc ev bus e w)) = buses w"
  "users (fst (alert_block svc ev bus e w)) = users w"
  "events (fst (alert_block svc ev bus e w)) = events w"
  "alerts (fst (alert_block svc ev bus e w)) = fst (svc ev (alerts w) (events w) (b_id bus) e)"
  by (simp_all add: alert_block_def Let_def split: prod.splits sum.splits)

lemma alert_block_raise:
  "snd (svc ev (alerts w) (events w) (b_id bus) e) = Inl x \<Longrightarrow>
   alert_block svc ev bus e w
     = (log_effects [AlertCheck (b_id bus) (e_id e)]
          (w\<lparr>alerts := fst (svc ev (alerts w) (events w) (b_id bus) e)\<rparr>), Some x)"
  by (auto simp: alert_block_def Let_def split: prod.splits sum.splits)

lemma alert_block_ok:
  "snd (svc ev (alerts w) (events w) (b_id bus) e) = Inr created \<Longrightarrow>
   alert_block svc ev bus e w
     = broadcast_alerts ev bus created
         (log_effects [AlertCheck (b_id bus) (e_id e)]
            (w\<lparr>alerts := fst (svc ev (alerts w) (events w) (b_id bus) e)\<rparr>))"
  by (auto simp: alert_block_def Let_def split: prod.splits sum.splits)

lemma alert_block_shape:
  "\<exists>post. effects (fst (alert_block svc ev bus e w))
       = effects w @ AlertCheck (b_id bus) (e_id e) # post
     \<and> (\<forall>x \<in> set post. \<exists>created a.
            snd (svc ev (alerts w) (events w) (b_id bus) e) = Inr created \<and> a \<in> set created
            \<and> x = Broadcast (alert_created_msg bus a))"
proof (cases "snd (svc ev (alerts w) (events w) (b_id bus) e)")
  case (Inl x)
  then show ?thesis by (simp add: alert_block_raise)
next
  case (Inr created)
  let ?w1 = "log_effects [AlertCheck (b_id bus) (e_id e)]
            (w\<lparr>alerts := fst (svc ev (alerts w) (events w) (b_id bus) e)\<rparr>)"
  from broadcast_alerts_shape [of ev bus created ?w1]
  obtain post where "effects (fst (broadcast_alerts ev bus created ?w1)) = effects ?w1 @ post"
    and "\<forall>x \<in> set post. \<exists>a \<in> set created. x = Broadcast (alert_created_msg bus a)"
    by blast
  with Inr show ?thesis
    by (auto simp: alert_block_ok)
qed

lemma notify_alerts_frame [simp]:
  "buses (fst (notify_alerts svc ev bus e w)) = buses w"
  "users (fst (notify_alerts svc ev bus e w)) = users w"
  "events (fst (notify_alerts svc ev bus e w)) = events w"
  "alerts (fst (notify_alerts svc ev bus e w)) = fst (svc ev (alerts w) (events w) (b_id bus) e)"
  by (simp_all add: notify_alerts_def)

lemma notify_alerts_effects:
  "effects (fst (notify_alerts svc ev bus e w)) =
     effects (fst (alert_block svc ev bus e w))
     @ (case snd (alert_block svc ev bus e w) of
          None \<Rightarrow> []
        | Some x \<Rightarrow> (if is_Exception x then [Print ''Error checking alerts'' x] else []))"
  by (simp add: notify_alerts_def except_Exception_effects)


text \<open>\<open>create_event\<close> once the bus is found and commit and refresh have gone through.\<close>

lemma create_event_committed:
  assumes "buses w (r_bus_id event_data) = Some bus" and "commit_raises ev = None"
    and "refresh_raises ev = None"
  shows "create_event svc ev w event_data current_user =
     (let event = new_event ev w event_data current_user;
          r1 = notify_event ev bus current_user event
                 (log_effects [DbCommit event] (w\<lparr>events := events w @ [event]\<rparr>))
      in case snd r1 of
           Some x \<Rightarrow> (fst r1, Inl x)
         | None \<Rightarrow>
             (let r2 = notify_alerts svc ev bus event (fst r1)
              in (fst r2, case snd r2 of Some x \<Rightarrow> Inl x | None \<Rightarrow> Inr event)))"
  using assms by (simp add: create_event_def Let_def split: prod.splits option.splits)

lemma create_event_events:
  "events (fst (create_event svc ev w event_data current_user)) =
     (if buses w (r_bus_id event_data) \<noteq> None \<and> commit_raises ev = None
      then events w @ [new_event ev w event_data current_user] else events w)"
proof (cases "buses w (r_bus_id event_data)")
  case None
  then show ?thesis by (simp add: create_event_def)
next
  case (Some bus)
  note bus = this
  show ?thesis
  proof (cases "commit_raises ev")
    case (Some x)
    with bus show ?thesis by (simp add: create_event_def)
  next
    case None
    note commit = this
    show ?thesis
    proof (cases "refresh_raises ev")
      case (Some x)
      with bus commit show ?thesis by (simp add: create_event_def Let_def)
    next
      case None
      from create_event_committed [OF bus commit None] bus commit show ?thesis
        by (simp add: Let_def split: option.splits)
    qed
  qed
qed











text \<open>The effects of a committed submission: the commit; then the first block (the
  \<open>event.created\<close> broadcast, the print of a caught failure); then, unless the first
  block let an exception through, the alert check followed by the second block
  (\<open>alert.created\<close> broadcasts of alerts the service returned, the print of a caught
  failure).\<close>

lemma create_event_effects_shape:
  assumes bus: "buses w (r_bus_id event_data) = Some bus"
    and commit: "commit_raises ev = None"
    and refresh: "refresh_raises ev = None"
  shows "\<exists>pre rest.
      effects (fst (create_event svc ev w event_data current_user))
        = effects w @ [DbCommit (new_event ev w event_data current_user)] @ pre @ rest
    \<and> (\<forall>x \<in> set pre.
          x = Broadcast (event_created_msg bus current_user (new_event ev w event_data current_user))
          \<or> (\<exists>e. x = Print ''Error broadcasting event'' e))
    \<and> ((rest = [] \<and> (\<exists>x. \<not> is_Exception x
                         \<and> snd (create_event svc ev w event_data current_user) = Inl x))
        \<or> (\<exists>post. rest = AlertCheck (b_id bus) (e_id (new_event ev w event_data current_user)) # post
             \<and> (\<forall>x \<in> set post.
                   (\<exists>created a.
                       snd (svc ev (alerts w) (events w @ [new_event ev w event_data current_user])
                              (b_id bus) (new_event ev w event_data current_user)) = Inr created
                       \<and> a \<in> set created \<and> x = Broadcast (alert_created_msg bus a))
                   \<or> (\<exists>e. x = Print ''Error checking alerts'' e))))"
proof -
  let ?e = "new_event ev w event_data current_user"
  let ?w1 = "log_effects [DbCommit ?e] (w\<lparr>events := events w @ [?e]\<rparr>)"
  let ?r1 = "notify_event ev bus current_user ?e ?w1"
  let ?r2 = "notify_alerts svc ev bus ?e (fst ?r1)"
  obtain pre where pre: "effects (fst ?r1) = effects w @ [DbCommit ?e] @ pre"
    and pre_shape: "\<forall>x \<in> set pre. x = Broadcast (event_created_msg bus current_user ?e)
          \<or> (\<exists>e. x = Print ''Error broadcasting event'' e)"
    by (auto simp: notify_event_effects split: option.splits)
  show ?thesis
  proof (cases "snd ?r1")
    case (Some x)
    with create_event_committed [OF bus commit refresh, of svc current_user]
    have "effects (fst (create_event svc ev w event_data current_user)) = effects (fst ?r1)"
      and out: "snd (create_event svc ev w event_data current_user) = Inl x"
      by (simp_all add: Let_def)
    with pre have "effects (fst (create_event svc ev w event_data current_user))
        = effects w @ [DbCommit ?e] @ pre @ []"
      by simp
    moreover from Some have "\<not> is_Exception x"
      by (auto simp: notify_event_result split: option.splits if_splits)
    ultimately show ?thesis using pre_shape out by blast
  next
    case None
    with create_event_committed [OF bus commit refresh, of svc current_user]
    have run: "effects (fst (create_event svc ev w event_data current_user)) = effects (fst ?r2)"
      by (simp add: Let_def)
    from alert_block_shape [of svc ev bus ?e "fst ?r1"]
    obtain post where post: "effects (fst (alert_block svc ev bus ?e (fst ?r1)))
          = effects (fst ?r1) @ AlertCheck (b_id bus) (e_id ?e) # post"
      and post_shape: "\<forall>x \<in> set post. \<exists>created a.
            snd (svc ev (alerts w) (events w @ [?e]) (b_id bus) ?e) = Inr created \<and> a \<in> set created
            \<and> x = Broadcast (alert_created_msg bus a)"
      by auto
    define tail where "tail =
       (case snd (alert_block svc ev bus ?e (fst ?r1)) of
          None \<Rightarrow> []
        | Some x \<Rightarrow> (if is_Exception x then [Print ''Error checking alerts'' x] else []))"
    have tail_shape: "\<forall>x \<in> set tail. \<exists>e. x = Print ''Error checking alerts'' e"
      by (auto simp: tail_def split: option.splits)
    have "effects (fst (create_event svc ev w event_data current_user))
        = effects w @ [DbCommit ?e] @ pre @ (AlertCheck (b_id bus) (e_id ?e) # (post @ tail))"
      by (simp add: run notify_alerts_effects post pre tail_def)
    moreover have "\<forall>x \<in> set (post @ tail).
          (\<exists>created a.
              snd (svc ev (alerts w) (events w @ [?e]) (b_id bus) ?e) = Inr created
              \<and> a \<in> set created \<and> x = Broadcast (alert_created_msg bus a))
          \<or> (\<exists>e. x = Print ''Error checking alerts'' e)"
      using post_shape tail_shape by auto
    ultimately show ?thesis using pre_shape by blast
  qed
qed

section \<open>A sample submission\<close>

text \<open>The very dirty inspection of the sample bus, submitted to the empty database
  with an alert service that creates one alert, nothing raising.\<close>

lemma sample_run:
  "create_event (fixed_alerts [sample_alert]) (sample_env 1000) sample_world very_dirty_request
     sample_user =
   (sample_world
      \<lparr> events := [very_dirty_event (4 / 5)],
        alerts := [sample_alert],
        effects :=
          [DbCommit (very_dirty_event (4 / 5)),
           Broadcast (event_created_msg sample_bus sample_user (very_dirty_event (4 / 5))),
           AlertCheck 1 1,
           Broadcast (alert_created_msg sample_bus sample_alert)] \<rparr>,
    Inr (very_dirty_event (4 / 5)))"
  by (simp add: sample_defs run_defs)

lemma sample_bus_found: "buses sample_world (r_bus_id very_dirty_request) = Some sample_bus"
  by (simp add: sample_defs)


section \<open>Claim C2: advisory failures and the outcome\<close>




section \<open>Claim C3: the order of the stages\<close>




section \<open>Claim C4: a missing bus\<close>

text \<open>
  Claim C4. If the bus a submitted event refers to does not exist, \<open>create_event\<close>
  fails with the 404 \<open>HTTPException\<close> "Bus not found" and the world is exactly what it
  was: no event row, no alert, no effect (no commit, no alert check, no broadcast).
\<close>

theorem create_event_bus_not_found:
  "buses w (r_bus_id event_data) = None \<Longrightarrow>
   create_event svc ev w event_data current_user = (w, Inl (HTTPException 404 ''Bus not found''))"
  by (simp add: create_event_def)

theorem create_event_bus_not_found_witness:
  "buses sample_world (r_bus_id (sample_request 2 DIRTY (4 / 5) [''a'', ''b''])) = None
   \<and> create_event (fixed_alerts [sample_alert]) (sample_env 1000) sample_world
         (sample_request 2 DIRTY (4 / 5) [''a'', ''b'']) sample_user
       = (sample_world, Inl (HTTPException 404 ''Bus not found''))"
proof -
  have missing: "buses sample_world (r_bus_id (sample_request 2 DIRTY (4 / 5) [''a'', ''b''])) = None"
    by (simp add: sample_world_def sample_request_def)
  from missing create_event_bus_not_found [OF missing] show ?thesis by simp
qed

section \<open>Claim C10: the submitter is the authenticated user\<close>

lemma create_event_returned:
  "create_event svc ev w event_data current_user = (w', Inr event) \<Longrightarrow>
   event = new_event ev w event_data current_user
   \<and> buses w (r_bus_id event_data) \<noteq> None \<and> commit_raises ev = None"
  by (auto simp: create_event_def Let_def split: option.splits prod.splits)

text \<open>
  Claim C10. Whenever \<open>create_event\<close> succeeds, the event it stored and returned has
  the id of the authenticated user as its \<open>user_id\<close>, whatever the request body holds
  (the body has no say: the statement holds for every \<open>event_data\<close>).
\<close>

theorem create_event_submitter:
  "create_event svc ev w event_data current_user = (w', Inr event) \<Longrightarrow>
   e_user_id event = u_id current_user \<and> events w' = events w @ [event]"
proof -
  assume run: "create_event svc ev w event_data current_user = (w', Inr event)"
  from create_event_returned [OF run]
  have event: "event = new_event ev w event_data current_user"
    and stored: "buses w (r_bus_id event_data) \<noteq> None \<and> commit_raises ev = None"
    by simp_all
  from run have "w' = fst (create_event svc ev w event_data current_user)" by simp
  with stored event have "events w' = events w @ [event]"
    by (simp add: create_event_events)
  with event show ?thesis by (simp add: new_event_def)
qed

theorem create_event_submitter_witness:
  "snd (create_event (fixed_alerts [sample_alert]) (sample_env 1000) sample_world
          very_dirty_request sample_user) = Inr (very_dirty_event (4 / 5))
   \<and> e_user_id (very_dirty_event (4 / 5)) = u_id sample_user
   \<and> u_id sample_user = 7"
  using create_event_submitter [OF sample_run] sample_run
  by (simp add: sample_user_def)

section \<open>The messages of a submission\<close>

lemma create_event_messages:
  assumes sent: "Broadcast m \<in> set (effects (fst (create_event svc ev w event_data current_user)))"
    and new: "Broadcast m \<notin> set (effects w)"
  shows "\<exists>bus. buses w (r_bus_id event_data) = Some bus
      \<and> (m = event_created_msg bus current_user (new_event ev w event_data current_user)
          \<or> (\<exists>created a.
                snd (svc ev (alerts w) (events w @ [new_event ev w event_data current_user])
                       (b_id bus) (new_event ev w event_data current_user)) = Inr created
                \<and> a \<in> set created \<and> m = alert_created_msg bus a))"
proof (cases "buses w (r_bus_id event_data)")
  case None
  with sent new show ?thesis by (simp add: create_event_def)
next
  case (Some bus)
  note bus = this
  show ?thesis
  proof (cases "commit_raises ev")
    case (Some x)
    with bus sent new show ?thesis by (simp add: create_event_def)
  next
    case None
    note commit = this
    show ?thesis
    proof (cases "refresh_raises ev")
      case (Some x)
      with bus commit sent new show ?thesis by (simp add: create_event_def Let_def)
    next
      case None
      from create_event_effects_shape [OF bus commit None, of svc current_user]
      obtain pre rest where
        log: "effects (fst (create_event svc ev w event_data current_user))
          = effects w @ [DbCommit (new_event ev w event_data current_user)] @ pre @ rest"
        and pre: "\<forall>x \<in> set pre.
          x = Broadcast (event_created_msg bus current_user (new_event ev w event_data current_user))
          \<or> (\<exists>e. x = Print ''Error broadcasting event'' e)"
        and rest: "(rest = [] \<and> (\<exists>x. \<not> is_Exception x
                         \<and> snd (create_event svc ev w event_data current_user) = Inl x))
        \<or> (\<exists>post. rest = AlertCheck (b_id bus) (e_id (new_event ev w event_data current_user)) # post
             \<and> (\<forall>x \<in> set post.
                   (\<exists>created a.
                       snd (svc ev (alerts w) (events w @ [new_event ev w event_data current_user])
                              (b_id bus) (new_event ev w event_data current_user)) = Inr created
                       \<and> a \<in> set created \<and> x = Broadcast (alert_created_msg bus a))
                   \<or> (\<exists>e. x = Print ''Error checking alerts'' e)))"
        by (elim exE conjE) (rule that)
      from sent new log have "Broadcast m \<in> set pre \<or> Broadcast m \<in> set rest"
        by auto
      then show ?thesis
      proof
        assume "Broadcast m \<in> set pre"
        with pre have "m = event_created_msg bus current_user (new_event ev w event_data current_user)"
          by auto
        with bus show ?thesis by blast
      next
        assume in_rest: "Broadcast m \<in> set rest"
        then have "rest \<noteq> []" by auto
        with rest obtain post where
          post: "rest = AlertCheck (b_id bus) (e_id (new_event ev w event_data current_user)) # post"
          and post_shape: "\<forall>x \<in> set post.
                   (\<exists>created a.
                       snd (svc ev (alerts w) (events w @ [new_event ev w event_data current_user])
                              (b_id bus) (new_event ev w event_data current_user)) = Inr created
                       \<and> a \<in> set created \<and> x = Broadcast (alert_created_msg bus a))
                   \<or> (\<exists>e. x = Print ''Error checking alerts'' e)"
          by blast
        from in_rest post have "Broadcast m \<in> set post" by simp
        from post_shape [rule_format, OF this]
        obtain created a where
          "snd (svc ev (alerts w) (events w @ [new_event ev w event_data current_user])
                              (b_id bus) (new_event ev w event_data current_user)) = Inr created"
          and "a \<in> set created" and "m = alert_created_msg bus a"
          by auto
        with bus show ?thesis by blast
      qed
    qed
  qed
qed

section \<open>Claim C7: the two notification shapes\<close>

text \<open>
  Claim C7. Every message a submission broadcasts is one of two variants told apart
  by the \<open>type\<close> tag. An \<open>event.created\<close> message carries exactly seven fields, with
  these values: the id of the new event, its bus reference, the label (\<open>ppu\<close>) of the
  bus, the name of the authenticated user, the \<open>.value\<close> of the state, the confidence
  and the timestamp. An \<open>alert.created\<close> message carries exactly six fields, for an
  alert the alert service returned: the alert's id and bus reference, the label of
  the bus, the \<open>.value\<close> of the kind and of the severity, and the detail. The new event
  is the row stored in the event table, and no message is of both variants.
\<close>

theorem notification_shapes:
  fixes svc :: alert_service and ev :: env and w :: world and event_data :: CleaningEventCreate
    and current_user :: User
  defines "event \<equiv> new_event ev w event_data current_user"
  assumes sent: "Broadcast m \<in> set (effects (fst (create_event svc ev w event_data current_user)))"
    and new: "Broadcast m \<notin> set (effects w)"
  shows "(\<exists>bus. buses w (r_bus_id event_data) = Some bus
      \<and> (m = \<lparr> msg_type = ''event.created'',
                msg_data =
                  [ (''id'', JInt (int (e_id event))),
                    (''bus_id'', JInt (int (e_bus_id event))),
                    (''bus_ppu'', JStr (b_ppu bus)),
                    (''user_nombre'', JStr (u_nombre current_user)),
                    (''estado'', JStr (CleaningState_value (e_estado event))),
                    (''confidence'', json_of_confidence (e_confidence event)),
                    (''created_at'', JTime (e_created_at event)) ] \<rparr>
          \<or> (\<exists>created a.
                snd (svc ev (alerts w) (events w @ [event]) (b_id bus) event) = Inr created
                \<and> a \<in> set created
                \<and> m = \<lparr> msg_type = ''alert.created'',
                        msg_data =
                          [ (''id'', JInt (int (a_id a))),
                            (''bus_id'', JInt (int (a_bus_id a))),
                            (''bus_ppu'', JStr (b_ppu bus)),
                            (''tipo'', JStr (AlertType_value (a_tipo a))),
                            (''nivel'', JStr (AlertLevel_value (a_nivel a))),
                            (''detalle'', JStr (a_detalle a)) ] \<rparr>)))
    \<and> events (fst (create_event svc ev w event_data current_user)) = events w @ [event]
    \<and> msg_type (event_created_msg bus' user' event') \<noteq> msg_type (alert_created_msg bus'' alert')"
proof -
  from create_event_messages [OF sent new]
  obtain bus where bus: "buses w (r_bus_id event_data) = Some bus"
    and shape: "m = event_created_msg bus current_user event
          \<or> (\<exists>created a.
                snd (svc ev (alerts w) (events w @ [event]) (b_id bus) event) = Inr created
                \<and> a \<in> set created \<and> m = alert_created_msg bus a)"
    unfolding event_def by blast
  have "commit_raises ev = None"
  proof (rule ccontr)
    assume "commit_raises ev \<noteq> None"
    with bus have "fst (create_event svc ev w event_data current_user) = w"
      by (auto simp: create_event_def)
    with sent new show False by simp
  qed
  with bus have stored: "events (fst (create_event svc ev w event_data current_user))
      = events w @ [event]"
    by (simp add: create_event_events event_def)
  have tags: "msg_type (event_created_msg bus' user' event')
      \<noteq> msg_type (alert_created_msg bus'' alert')"
    by (simp add: event_created_msg_def alert_created_msg_def)
  from shape have "m = \<lparr> msg_type = ''event.created'',
                msg_data =
                  [ (''id'', JInt (int (e_id event))),
                    (''bus_id'', JInt (int (e_bus_id event))),
                    (''bus_ppu'', JStr (b_ppu bus)),
                    (''user_nombre'', JStr (u_nombre current_user)),
                    (''estado'', JStr (CleaningState_value (e_estado event))),
                    (''confidence'', json_of_confidence (e_confidence event)),
                    (''created_at'', JTime (e_created_at event)) ] \<rparr>
          \<or> (\<exists>created a.
                snd (svc ev (alerts w) (events w @ [event]) (b_id bus) event) = Inr created
                \<and> a \<in> set created
                \<and> m = \<lparr> msg_type = ''alert.created'',
                        msg_data =
                          [ (''id'', JInt (int (a_id a))),
                            (''bus_id'', JInt (int (a_bus_id a))),
                            (''bus_ppu'', JStr (b_ppu bus)),
                            (''tipo'', JStr (AlertType_value (a_tipo a))),
                            (''nivel'', JStr (AlertLevel_value (a_nivel a))),
                            (''detalle'', JStr (a_detalle a)) ] \<rparr>)"
    by (simp only: event_created_msg_def alert_created_msg_def)
  with bus have "\<exists>bus. buses w (r_bus_id event_data) = Some bus
      \<and> (m = \<lparr> msg_type = ''event.created'',
                msg_data =
                  [ (''id'', JInt (int (e_id event))),
                    (''bus_id'', JInt (int (e_bus_id event))),
                    (''bus_ppu'', JStr (b_ppu bus)),
                    (''user_nombre'', JStr (u_nombre current_user)),
                    (''estado'', JStr (CleaningState_value (e_estado event))),
                    (''confidence'', json_of_confidence (e_confidence event)),
                    (''created_at'', JTime (e_created_at event)) ] \<rparr>
          \<or> (\<exists>created a.
                snd (svc ev (alerts w) (events w @ [event]) (b_id bus) event) = Inr created
                \<and> a \<in> set created
                \<and> m = \<lparr> msg_type = ''alert.created'',
                        msg_data =
                          [ (''id'', JInt (int (a_id a))),
                            (''bus_id'', JInt (int (a_bus_id a))),
                            (''bus_ppu'', JStr (b_ppu bus)),
                            (''tipo'', JStr (AlertType_value (a_tipo a))),
                            (''nivel'', JStr (AlertLevel_value (a_nivel a))),
                            (''detalle'', JStr (a_detalle a)) ] \<rparr>))"
    by (intro exI conjI)
  with stored tags show ?thesis by (intro conjI)
qed

theorem notification_shapes_witness:
  "Broadcast \<lparr> msg_type = ''event.created'',
            msg_data = [(''id'', JInt 1), (''bus_id'', JInt 1), (''bus_ppu'', JStr ''ABCD12''),
               (''user_nombre'', JStr ''Ana''), (''estado'', JStr ''dirty''),
               (''confidence'', JNum (4 / 5)), (''created_at'', JTime 1000)] \<rparr>
     \<in> set (effects (fst (create_event (fixed_alerts [sample_alert]) (sample_env 1000)
         sample_world very_dirty_request sample_user)))
   \<and> Broadcast \<lparr> msg_type = ''alert.created'',
            msg_data = [(''id'', JInt 1), (''bus_id'', JInt 1), (''bus_ppu'', JStr ''ABCD12''),
               (''tipo'', JStr ''muy_sucio''), (''nivel'', JStr ''critical''),
               (''detalle'', JStr ''Bus muy sucio'')] \<rparr>
     \<in> set (effects (fst (create_event (fixed_alerts [sample_alert]) (sample_env 1000)
         sample_world very_dirty_request sample_user)))
   \<and> effects sample_world = []
   \<and> buses sample_world (r_bus_id very_dirty_request) = Some sample_bus
   \<and> b_ppu sample_bus = ''ABCD12''
   \<and> u_nombre sample_user = ''Ana''
   \<and> new_event (sample_env 1000) sample_world very_dirty_request sample_user
       = \<lparr> e_id = 1, e_bus_id = 1, e_user_id = 7, e_estado = DIRTY,
           e_confidence = Some (4 / 5), e_observaciones = None,
           e_imagen_thumb_url = None, e_origen = Edge,
           e_issues = Some \<lparr> ip_issues = Some [''a'', ''b'', ''c''], ip_suggestions = None \<rparr>,
           e_created_at = 1000 \<rparr>
   \<and> events (fst (create_event (fixed_alerts [sample_alert]) (sample_env 1000)
         sample_world very_dirty_request sample_user))
       = [new_event (sample_env 1000) sample_world very_dirty_request sample_user]"
proof -
  have sent_event: "Broadcast \<lparr> msg_type = ''event.created'',
            msg_data = [(''id'', JInt 1), (''bus_id'', JInt 1), (''bus_ppu'', JStr ''ABCD12''),
               (''user_nombre'', JStr ''Ana''), (''estado'', JStr ''dirty''),
               (''confidence'', JNum (4 / 5)), (''created_at'', JTime 1000)] \<rparr>
     \<in> set (effects (fst (create_event (fixed_alerts [sample_alert]) (sample_env 1000)
         sample_world very_dirty_request sample_user)))"
    unfolding sample_run
    by (simp add: sample_defs event_created_msg_def alert_created_msg_def)
  have sent_alert: "Broadcast \<lparr> msg_type = ''alert.created'',
            msg_data = [(''id'', JInt 1), (''bus_id'', JInt 1), (''bus_ppu'', JStr ''ABCD12''),
               (''tipo'', JStr ''muy_sucio''), (''nivel'', JStr ''critical''),
               (''detalle'', JStr ''Bus muy sucio'')] \<rparr>
     \<in> set (effects (fst (create_event (fixed_alerts [sample_alert]) (sample_env 1000)
         sample_world very_dirty_request sample_user)))"
    unfolding sample_run
    by (simp add: sample_defs event_created_msg_def alert_created_msg_def)
  have facts: "effects sample_world = []" "events sample_world = []"
    "b_ppu sample_bus = ''ABCD12''" "u_nombre sample_user = ''Ana''"
    "new_event (sample_env 1000) sample_world very_dirty_request sample_user
       = \<lparr> e_id = 1, e_bus_id = 1, e_user_id = 7, e_estado = DIRTY,
           e_confidence = Some (4 / 5), e_observaciones = None,
           e_imagen_thumb_url = None, e_origen = Edge,
           e_issues = Some \<lparr> ip_issues = Some [''a'', ''b'', ''c''], ip_suggestions = None \<rparr>,
           e_created_at = 1000 \<rparr>"
    by (simp_all add: sample_defs new_event_def next_id_def)
  have new_event_msg: "Broadcast \<lparr> msg_type = ''event.created'',
            msg_data = [(''id'', JInt 1), (''bus_id'', JInt 1), (''bus_ppu'', JStr ''ABCD12''),
               (''user_nombre'', JStr ''Ana''), (''estado'', JStr ''dirty''),
               (''confidence'', JNum (4 / 5)), (''created_at'', JTime 1000)] \<rparr>
     \<notin> set (effects sample_world)"
    and new_alert_msg: "Broadcast \<lparr> msg_type = ''alert.created'',
            msg_data = [(''id'', JInt 1), (''bus_id'', JInt 1), (''bus_ppu'', JStr ''ABCD12''),
               (''tipo'', JStr ''muy_sucio''), (''nivel'', JStr ''critical''),
               (''detalle'', JStr ''Bus muy sucio'')] \<rparr>
     \<notin> set (effects sample_world)"
    by (simp_all add: facts)
  note stored = notification_shapes [OF sent_event new_event_msg, THEN conjunct2, THEN conjunct1]
  have "events (fst (create_event (fixed_alerts [sample_alert]) (sample_env 1000)
         sample_world very_dirty_request sample_user))
       = [new_event (sample_env 1000) sample_world very_dirty_request sample_user]"
    unfolding stored by (simp only: facts(2) append_Nil)
  with sent_event sent_alert facts(1,3,4,5) sample_bus_found
  show ?thesis by (intro conjI)
qed

section \<open>Claim C9: suggestions are never empty\<close>

lemma collect_suggestions_eq:
  "collect_suggestions acc issues = acc @ map suggestion_for issues"
  by (induction issues arbitrary: acc) simp_all

text \<open>
  Claim C9. \<open>_generate_suggestions\<close> never returns the empty list: for a non-empty
  list of issues it returns one suggestion per issue, in order, and for the empty list
  the single general suggestion; so the suggestions of every successful answer of
  \<open>/ai/analyze\<close> are non-empty.
\<close>

theorem generate_suggestions_nonempty:
  "generate_suggestions issues \<noteq> []
   \<and> (issues \<noteq> [] \<longrightarrow> length (generate_suggestions issues) = length issues)
   \<and> (issues \<noteq> [] \<longrightarrow> generate_suggestions issues = map suggestion_for issues)
   \<and> generate_suggestions [] = [''Realizar limpieza general del bus'']
   \<and> (analyze_image ml img = Inr response \<longrightarrow> ar_suggestions response \<noteq> [])"
  by (auto simp: generate_suggestions_def Let_def collect_suggestions_eq analyze_image_def
      split: sum.splits prod.splits)

theorem generate_suggestions_nonempty_witness:
  "[''Papeles en el piso'', ''otra cosa''] \<noteq> []
   \<and> length (generate_suggestions [''Papeles en el piso'', ''otra cosa'']) = 2
   \<and> generate_suggestions [''Papeles en el piso'', ''otra cosa'']
       = [''Recoger y desechar basura del piso y asientos'',
          ''Revisar y limpiar '' @ [CHR 0xEC, CHR 0xB9, CHR 0x98] @ ''rea afectada'']
   \<and> analyze_image (\<lambda>_. Inr (DIRTY, 4 / 5, [''VENTANA rota''])) ''img''
       = Inr \<lparr> ar_estado = DIRTY, ar_confidence = 4 / 5, ar_issues = [''VENTANA rota''],
               ar_suggestions = generate_suggestions [''VENTANA rota''] \<rparr>
   \<and> generate_suggestions [''VENTANA rota''] \<noteq> []"
proof -
  have run: "analyze_image (\<lambda>_. Inr (DIRTY, 4 / 5, [''VENTANA rota''])) ''img''
       = Inr \<lparr> ar_estado = DIRTY, ar_confidence = 4 / 5, ar_issues = [''VENTANA rota''],
               ar_suggestions = generate_suggestions [''VENTANA rota''] \<rparr>"
    by (simp add: analyze_image_def)
  have each: "map suggestion_for [''Papeles en el piso'', ''otra cosa'']
       = [''Recoger y desechar basura del piso y asientos'',
          ''Revisar y limpiar '' @ [CHR 0xEC, CHR 0xB9, CHR 0x98] @ ''rea afectada'']"
    by code_simp
  from generate_suggestions_nonempty [of "[''Papeles en el piso'', ''otra cosa'']"
      "\<lambda>_. Inr (DIRTY, 4 / 5, [''VENTANA rota''])" "''img''", unfolded run]
    generate_suggestions_nonempty [of "[''VENTANA rota'']"] run each
  show ?thesis by simp
qed

section \<open>Claim C1: at most one unresolved alert per bus and kind\<close>

lemma unresolved_count_append:
  "unresolved_count (store @ [a]) b k
     = unresolved_count store b k
       + (if a_bus_id a = b \<and> a_tipo a = k \<and> is_unresolved a then 1 else 0)"
  by (simp add: unresolved_count_def)

lemma hasUnresolved_iff: "hasUnresolved store b k \<longleftrightarrow> 0 < unresolved_count store b k"
  by (simp add: hasUnresolved_def unresolved_count_def list_ex_iff filter_empty_conv) blast

lemma new_alert_fields [simp]:
  "a_bus_id (new_alert ev store b p) = b"
  "a_tipo (new_alert ev store b p) = pr_tipo p"
  "a_nivel (new_alert ev store b p) = pr_nivel p"
  "is_unresolved (new_alert ev store b p)"
  by (simp_all add: new_alert_def is_unresolved_def)

lemma fst_persist_proposals_Cons:
  "fst (persist_proposals ev busId (p # ps) store) =
     (if hasUnresolved store busId (pr_tipo p) then fst (persist_proposals ev busId ps store)
      else
        (case alert_create_raises ev (pr_tipo p) of
           Some x \<Rightarrow> store
         | None \<Rightarrow> fst (persist_proposals ev busId ps (store @ [new_alert ev store busId p]))))"
  by (simp add: Let_def split: prod.splits sum.splits option.splits)

lemma persist_proposals_invariant:
  "\<forall>b k. unresolved_count store b k \<le> 1 \<Longrightarrow>
   unresolved_count (fst (persist_proposals ev busId ps store)) b k \<le> 1"
proof (induction ps arbitrary: store)
  case Nil
  then show ?case by simp
next
  case (Cons p ps)
  show ?case
  proof (cases "hasUnresolved store busId (pr_tipo p)")
    case True
    with Cons.IH [OF Cons.prems] show ?thesis
      by (simp only: fst_persist_proposals_Cons if_True)
  next
    case False
    note fresh = this
    show ?thesis
    proof (cases "alert_create_raises ev (pr_tipo p)")
      case (Some x)
      with fresh Cons.prems show ?thesis
        by (simp only: fst_persist_proposals_Cons if_False option.case)
    next
      case None
      let ?a = "new_alert ev store busId p"
      from fresh have "unresolved_count store busId (pr_tipo p) = 0"
        by (simp add: hasUnresolved_iff)
      with Cons.prems have "\<forall>b k. unresolved_count (store @ [?a]) b k \<le> 1"
        by (simp add: unresolved_count_append)
      from Cons.IH [OF this]
      have "unresolved_count (fst (persist_proposals ev busId ps (store @ [?a]))) b k \<le> 1" .
      with fresh None show ?thesis
        by (simp only: fst_persist_proposals_Cons if_False option.case)
    qed
  qed
qed

lemma create_event_alerts:
  "alerts (fst (create_event svc ev w event_data current_user)) = alerts w
   \<or> (\<exists>bus. buses w (r_bus_id event_data) = Some bus
         \<and> alerts (fst (create_event svc ev w event_data current_user))
             = fst (svc ev (alerts w) (events w @ [new_event ev w event_data current_user])
                      (b_id bus) (new_event ev w event_data current_user)))"
proof (cases "buses w (r_bus_id event_data)")
  case None
  then show ?thesis by (simp add: create_event_def)
next
  case (Some bus)
  note bus = this
  show ?thesis
  proof (cases "commit_raises ev")
    case (Some x)
    with bus show ?thesis by (simp add: create_event_def)
  next
    case None
    note commit = this
    show ?thesis
    proof (cases "refresh_raises ev")
      case (Some x)
      with bus commit show ?thesis by (simp add: create_event_def Let_def)
    next
      case None
      from create_event_committed [OF bus commit None, of svc current_user] bus show ?thesis
        by (simp add: Let_def split: option.splits)
    qed
  qed
qed

lemma create_event_invariant:
  assumes "\<forall>b k. unresolved_count (alerts w) b k \<le> 1"
  shows "unresolved_count
           (alerts (fst (create_event (check_and_create_alerts cfg) ev w event_data current_user)))
           b k \<le> 1"
  using create_event_alerts [of "check_and_create_alerts cfg" ev w event_data current_user]
proof
  assume "alerts (fst (create_event (check_and_create_alerts cfg) ev w event_data current_user))
      = alerts w"
  with assms show ?thesis by simp
next
  assume "\<exists>bus. buses w (r_bus_id event_data) = Some bus
         \<and> alerts (fst (create_event (check_and_create_alerts cfg) ev w event_data current_user))
             = fst (check_and_create_alerts cfg ev (alerts w)
                      (events w @ [new_event ev w event_data current_user])
                      (b_id bus) (new_event ev w event_data current_user))"
  then obtain bus :: Bus where
    "alerts (fst (create_event (check_and_create_alerts cfg) ev w event_data current_user))
       = fst (check_and_create_alerts cfg ev (alerts w)
                (events w @ [new_event ev w event_data current_user])
                (b_id bus) (new_event ev w event_data current_user))"
    by blast
  with persist_proposals_invariant [OF assms] show ?thesis
    by (simp add: check_and_create_alerts_def)
qed

text \<open>
  Claim C1. Starting from any alert table with at most one unresolved alert per bus
  and kind (the empty table is one), every sequence of submissions, each run through
  \<open>create_event\<close> with the rule engine, ends in a table with at most one unresolved
  alert per bus and kind; and a proposal whose kind has an unresolved alert for the bus
  is suppressed: persisting goes on with the table unchanged.
\<close>

theorem at_most_one_unresolved_alert:
  assumes "\<forall>b k. unresolved_count (alerts w) b k \<le> 1"
  shows "unresolved_count (alerts (ingest_all cfg w submissions)) busId kind \<le> 1
    \<and> (hasUnresolved store busId (pr_tipo p) \<longrightarrow>
         persist_proposals ev busId (p # ps) store = persist_proposals ev busId ps store)"
proof -
  have "unresolved_count (alerts (ingest_all cfg w submissions)) busId kind \<le> 1"
    using assms
  proof (induction submissions arbitrary: w)
    case Nil
    then show ?case by simp
  next
    case (Cons s rest)
    obtain ev event_data current_user where s: "s = (ev, event_data, current_user)"
      by (cases s)
    have "\<forall>b k. unresolved_count
           (alerts (fst (create_event (check_and_create_alerts cfg) ev w event_data current_user)))
           b k \<le> 1"
      using create_event_invariant [OF Cons.prems] by blast
    from Cons.IH [OF this] show ?case by (simp add: s)
  qed
  then show ?thesis by simp
qed

lemma three_dirty_run:
  "alerts (ingest_all default_config sample_world [dirty_at 1000, dirty_at 2000, dirty_at 3000])
    = [\<lparr> a_id = 1, a_bus_id = 1, a_tipo = Repetido, a_nivel = Warn,
                      a_detalle = ''repetido'', a_created_at = 2000,
                      a_resolved_by = None, a_resolved_at = None \<rparr>]"
  by (simp add: dirty_at_def sample_defs run_defs engine_defs)

theorem at_most_one_unresolved_alert_witness:
  "(\<forall>b k. unresolved_count (alerts sample_world) b k \<le> 1)
   \<and> unresolved_count
        (alerts (ingest_all default_config sample_world [dirty_at 1000, dirty_at 2000, dirty_at 3000]))
        1 Repetido = 1
   \<and> hasUnresolved
        (alerts (ingest_all default_config sample_world [dirty_at 1000, dirty_at 2000, dirty_at 3000]))
        1 (pr_tipo (propose default_config Repetido Warn))
   \<and> persist_proposals (sample_env 4000) 1 [propose default_config Repetido Warn]
        (alerts (ingest_all default_config sample_world [dirty_at 1000, dirty_at 2000, dirty_at 3000]))
      = (alerts (ingest_all default_config sample_world [dirty_at 1000, dirty_at 2000, dirty_at 3000]),
         Inr [])"
proof -
  have start: "\<forall>b k. unresolved_count (alerts sample_world) b k \<le> 1"
    by (simp add: sample_world_def unresolved_count_def)
  have count: "unresolved_count
        (alerts (ingest_all default_config sample_world [dirty_at 1000, dirty_at 2000, dirty_at 3000]))
        1 Repetido = 1"
    unfolding three_dirty_run by (simp add: unresolved_count_def is_unresolved_def)
  have found: "hasUnresolved
        (alerts (ingest_all default_config sample_world [dirty_at 1000, dirty_at 2000, dirty_at 3000]))
        1 (pr_tipo (propose default_config Repetido Warn))"
    unfolding three_dirty_run by (simp add: hasUnresolved_def is_unresolved_def propose_def)
  from at_most_one_unresolved_alert [OF start, of default_config
         "[dirty_at 1000, dirty_at 2000, dirty_at 3000]" 1 Repetido
         "alerts (ingest_all default_config sample_world [dirty_at 1000, dirty_at 2000, dirty_at 3000])"
         "propose default_config Repetido Warn" "sample_env 4000" "[]"]
       start count found
  show ?thesis by simp
qed

section \<open>Claim C5: the window is half-open\<close>

lemma set_window_events:
  "set (window_events cfg now evs busId)
     = {e \<in> set evs. e_bus_id e = busId \<and> now - window_duration cfg < e_created_at e
          \<and> e_created_at e \<le> now}"
  by (auto simp: window_events_def recentEventsForBus_def)

lemma window_count_filter:
  "window_count cfg now evs busId st
     = length (filter (\<lambda>e. e_bus_id e = busId \<and> e_estado e = st
          \<and> now - window_duration cfg < e_created_at e \<and> e_created_at e \<le> now) evs)"
proof -
  have "window_count cfg now evs busId st
      = length (sort_key e_created_at
          (filter (\<lambda>e. e_estado e = st)
            (filter (\<lambda>e. now - window_duration cfg < e_created_at e \<and> e_created_at e \<le> now)
              (filter (\<lambda>e. e_bus_id e = busId \<and> now - window_duration cfg \<le> e_created_at e) evs))))"
    by (simp only: window_count_def window_events_def recentEventsForBus_def filter_sort)
  also have "\<dots> = length (filter (\<lambda>e. e_bus_id e = busId \<and> e_estado e = st
          \<and> now - window_duration cfg < e_created_at e \<and> e_created_at e \<le> now) evs)"
    by (auto simp: intro!: arg_cong [where f = length] filter_cong)
  finally show ?thesis .
qed

text \<open>
  Claim C5. The window of a rule count is the half-open interval
  \<open>(now - windowDuration, now]\<close>: an event is in it exactly when it is an event of the
  bus with \<open>now - windowDuration < created_at \<le> now\<close>. An event stamped exactly
  \<open>now - windowDuration\<close> is outside and adds nothing to any count, although the store's
  \<open>recentEventsForBus\<close> (bound included) returns it; an event of the bus stamped one
  millisecond later is inside and adds one to the count of its state.
\<close>

theorem window_is_half_open:
  "(e \<in> set (window_events cfg now evs busId) \<longleftrightarrow>
      e \<in> set evs \<and> e_bus_id e = busId
      \<and> now - window_duration cfg < e_created_at e \<and> e_created_at e \<le> now)
   \<and> (e_created_at e = now - window_duration cfg \<longrightarrow>
        e \<notin> set (window_events cfg now (evs @ [e]) busId)
        \<and> window_count cfg now (evs @ [e]) busId st = window_count cfg now evs busId st)
   \<and> (e_created_at e = now - window_duration cfg \<and> e_bus_id e = busId \<longrightarrow>
        e \<in> set (recentEventsForBus (evs @ [e]) busId (now - window_duration cfg)))
   \<and> (e_created_at e = now - window_duration cfg + 1 \<and> 0 < window_duration cfg
        \<and> e_bus_id e = busId \<longrightarrow>
        e \<in> set (window_events cfg now (evs @ [e]) busId)
        \<and> window_count cfg now (evs @ [e]) busId (e_estado e)
            = Suc (window_count cfg now evs busId (e_estado e)))"
  by (auto simp: set_window_events window_count_filter recentEventsForBus_def)

theorem window_is_half_open_witness:
  "e_created_at (boundary_event 5000) = 259205000 - window_duration default_config
   \<and> e_bus_id (boundary_event 5000) = 1
   \<and> boundary_event 5000 \<notin> set (window_events default_config 259205000 [boundary_event 5000] 1)
   \<and> window_count default_config 259205000 [boundary_event 5000] 1 DIRTY = 0
   \<and> boundary_event 5000 \<in> set (recentEventsForBus [boundary_event 5000] 1 5000)
   \<and> e_created_at (boundary_event 5001) = 259205000 - window_duration default_config + 1
   \<and> 0 < window_duration default_config
   \<and> e_bus_id (boundary_event 5001) = 1
   \<and> boundary_event 5001 \<in> set (window_events default_config 259205000 [boundary_event 5001] 1)
   \<and> window_count default_config 259205000 [boundary_event 5001] 1 DIRTY = 1"
proof -
  have facts: "e_created_at (boundary_event 5000) = 259205000 - window_duration default_config"
    "e_created_at (boundary_event 5001) = 259205000 - window_duration default_config + 1"
    "0 < window_duration default_config"
    "e_bus_id (boundary_event 5000) = 1" "e_bus_id (boundary_event 5001) = 1"
    "e_estado (boundary_event 5001) = DIRTY"
    "259205000 - window_duration default_config = 5000"
    "window_count default_config 259205000 [] 1 DIRTY = 0"
    by (simp_all add: boundary_event_def default_config_def window_count_filter)
  from window_is_half_open [of "boundary_event 5000" default_config 259205000 "[]" 1 DIRTY]
       window_is_half_open [of "boundary_event 5001" default_config 259205000 "[]" 1 DIRTY]
       facts
  show ?thesis by simp
qed

section \<open>Claim C6: the very dirty rule\<close>

lemma very_dirty_proposals:
  "filter (\<lambda>p. pr_tipo p = Muy_sucio) (evaluate_rules cfg now evs busId event)
     = rule_very_dirty cfg event"
  by (simp add: evaluate_rules_def rule_repeated_dirty_def rule_very_dirty_def
      rule_recurrent_uncertain_def propose_def)

text \<open>
  Claim C6. For an event that is dirty, whose confidence is at least the configured
  high-confidence bound and that has at least the configured minimum of detected issues
  (defaults 0.65 and 2), the rule engine's proposals hold exactly one of kind very_dirty
  (\<open>muy_sucio\<close>), of severity critical; for an event whose confidence is below the bound
  they hold none.
\<close>

theorem very_dirty_rule:
  "(e_estado event = DIRTY \<and> e_confidence event = Some c \<and> high_confidence cfg \<le> c
      \<and> min_issue_count cfg \<le> issue_count event \<longrightarrow>
      filter (\<lambda>p. pr_tipo p = Muy_sucio) (evaluate_rules cfg now evs busId event)
        = [\<lparr> pr_tipo = Muy_sucio, pr_nivel = Critical, pr_detalle = detail_text cfg Muy_sucio \<rparr>])
   \<and> (e_confidence event = Some c \<and> c < high_confidence cfg \<longrightarrow>
      filter (\<lambda>p. pr_tipo p = Muy_sucio) (evaluate_rules cfg now evs busId event) = [])
   \<and> high_confidence default_config = 65 / 100
   \<and> min_issue_count default_config = 2"
  by (simp add: very_dirty_proposals rule_very_dirty_def propose_def default_config_def)

theorem very_dirty_rule_witness:
  "e_estado (very_dirty_event (4 / 5)) = DIRTY
   \<and> e_confidence (very_dirty_event (4 / 5)) = Some (4 / 5)
   \<and> high_confidence default_config \<le> 4 / 5
   \<and> min_issue_count default_config \<le> issue_count (very_dirty_event (4 / 5))
   \<and> filter (\<lambda>p. pr_tipo p = Muy_sucio)
        (evaluate_rules default_config 1000 [very_dirty_event (4 / 5)] 1 (very_dirty_event (4 / 5)))
      = [\<lparr> pr_tipo = Muy_sucio, pr_nivel = Critical, pr_detalle = ''muy_sucio'' \<rparr>]
   \<and> e_confidence (very_dirty_event (1 / 2)) = Some (1 / 2)
   \<and> 1 / 2 < high_confidence default_config
   \<and> filter (\<lambda>p. pr_tipo p = Muy_sucio)
        (evaluate_rules default_config 1000 [very_dirty_event (1 / 2)] 1 (very_dirty_event (1 / 2)))
      = []"
proof -
  have facts: "e_estado (very_dirty_event (4 / 5)) = DIRTY"
    "e_confidence (very_dirty_event (4 / 5)) = Some (4 / 5)"
    "high_confidence default_config \<le> 4 / 5"
    "min_issue_count default_config \<le> issue_count (very_dirty_event (4 / 5))"
    "e_confidence (very_dirty_event (1 / 2)) = Some (1 / 2)"
    "1 / 2 < high_confidence default_config"
    "detail_text default_config Muy_sucio = ''muy_sucio''"
    by (simp_all add: very_dirty_event_def default_config_def issue_count_def)
  from very_dirty_rule [of "very_dirty_event (4 / 5)" "4 / 5" default_config 1000
           "[very_dirty_event (4 / 5)]" 1]
       very_dirty_rule [of "very_dirty_event (1 / 2)" "1 / 2" default_config 1000
           "[very_dirty_event (1 / 2)]" 1]
       facts
  show ?thesis by simp
qed

section \<open>Claim C8: the vocabularies of kind and severity\<close>

lemma evaluate_rules_pairs:
  "p \<in> set (evaluate_rules cfg now evs busId event) \<Longrightarrow>
   (pr_tipo p, pr_nivel p) \<in> {(Repetido, Warn), (Muy_sucio, Critical), (Dudoso_recurrente, Info)}"
  by (auto simp: evaluate_rules_def rule_repeated_dirty_def rule_very_dirty_def
      rule_recurrent_uncertain_def propose_def split: if_splits)

lemma persist_proposals_store:
  "a \<in> set (fst (persist_proposals ev busId ps store)) \<Longrightarrow>
   a \<in> set store \<or> (\<exists>p \<in> set ps. a_tipo a = pr_tipo p \<and> a_nivel a = pr_nivel p)"
proof (induction ps arbitrary: store)
  case Nil
  then show ?case by simp
next
  case (Cons p ps)
  show ?case
  proof (cases "hasUnresolved store busId (pr_tipo p)")
    case True
    with Cons.prems have "a \<in> set (fst (persist_proposals ev busId ps store))"
      by (simp only: fst_persist_proposals_Cons if_True)
    from Cons.IH [OF this] show ?thesis by auto
  next
    case False
    note fresh = this
    show ?thesis
    proof (cases "alert_create_raises ev (pr_tipo p)")
      case (Some x)
      with fresh Cons.prems show ?thesis
        by (simp add: fst_persist_proposals_Cons del: persist_proposals.simps)
    next
      case None
      with fresh Cons.prems
      have "a \<in> set (fst (persist_proposals ev busId ps (store @ [new_alert ev store busId p])))"
        by (simp only: fst_persist_proposals_Cons if_False option.case)
      from Cons.IH [OF this] show ?thesis by auto
    qed
  qed
qed

lemma persist_proposals_created:
  "snd (persist_proposals ev busId ps store) = Inr created \<Longrightarrow> a \<in> set created \<Longrightarrow>
   \<exists>p \<in> set ps. a_tipo a = pr_tipo p \<and> a_nivel a = pr_nivel p"
proof (induction ps arbitrary: store created)
  case Nil
  then show ?case by simp
next
  case (Cons p ps)
  show ?case
  proof (cases "hasUnresolved store busId (pr_tipo p)")
    case True
    with Cons.prems(1) have "snd (persist_proposals ev busId ps store) = Inr created"
      by simp
    from Cons.IH [OF this Cons.prems(2)] show ?thesis by auto
  next
    case False
    note fresh = this
    show ?thesis
    proof (cases "alert_create_raises ev (pr_tipo p)")
      case (Some x)
      with fresh Cons.prems(1) show ?thesis by simp
    next
      case None
      let ?a = "new_alert ev store busId p"
      from fresh None Cons.prems(1) obtain rest where
        rest: "snd (persist_proposals ev busId ps (store @ [?a])) = Inr rest"
        and created: "created = ?a # rest"
        by (auto simp: Let_def split: prod.splits sum.splits)
      show ?thesis
      proof (cases "a = ?a")
        case True
        then show ?thesis by simp
      next
        case False
        with created Cons.prems(2) have "a \<in> set rest" by simp
        from Cons.IH [OF rest this] show ?thesis by auto
      qed
    qed
  qed
qed

lemma create_event_new_alerts:
  assumes "a \<in> set (alerts (fst (create_event (check_and_create_alerts cfg) ev w event_data
              current_user)))"
    and "a \<notin> set (alerts w)"
  shows "(a_tipo a, a_nivel a) \<in> {(Repetido, Warn), (Muy_sucio, Critical), (Dudoso_recurrente, Info)}"
  using create_event_alerts [of "check_and_create_alerts cfg" ev w event_data current_user]
proof
  assume "alerts (fst (create_event (check_and_create_alerts cfg) ev w event_data current_user))
      = alerts w"
  with assms show ?thesis by simp
next
  assume "\<exists>bus. buses w (r_bus_id event_data) = Some bus
         \<and> alerts (fst (create_event (check_and_create_alerts cfg) ev w event_data current_user))
             = fst (check_and_create_alerts cfg ev (alerts w)
                      (events w @ [new_event ev w event_data current_user])
                      (b_id bus) (new_event ev w event_data current_user))"
  then obtain bus :: Bus where
    "alerts (fst (create_event (check_and_create_alerts cfg) ev w event_data current_user))
       = fst (check_and_create_alerts cfg ev (alerts w)
                (events w @ [new_event ev w event_data current_user])
                (b_id bus) (new_event ev w event_data current_user))"
    by blast
  with assms(1) have "a \<in> set (fst (persist_proposals ev (b_id bus)
        (evaluate_rules cfg (clock ev) (events w @ [new_event ev w event_data current_user])
           (b_id bus) (new_event ev w event_data current_user))
        (alerts w)))"
    by (simp add: check_and_create_alerts_def)
  from persist_proposals_store [OF this] assms(2)
  obtain p where "p \<in> set (evaluate_rules cfg (clock ev)
           (events w @ [new_event ev w event_data current_user])
           (b_id bus) (new_event ev w event_data current_user))"
    and "a_tipo a = pr_tipo p" and "a_nivel a = pr_nivel p"
    by blast
  with evaluate_rules_pairs [OF this(1)] show ?thesis by simp
qed

lemma create_event_alert_messages:
  assumes sent: "Broadcast m \<in> set (effects (fst (create_event (check_and_create_alerts cfg) ev w
                    event_data current_user)))"
    and new: "Broadcast m \<notin> set (effects w)"
    and tag: "msg_type m = ''alert.created''"
  shows "(map_of (msg_data m) ''tipo'', map_of (msg_data m) ''nivel'')
     \<in> {(Some (JStr ''repetido''), Some (JStr ''warn'')),
         (Some (JStr ''muy_sucio''), Some (JStr ''critical'')),
         (Some (JStr ''dudoso_recurrente''), Some (JStr ''info''))}"
proof -
  let ?e = "new_event ev w event_data current_user"
  from create_event_messages [OF sent new]
  obtain bus :: Bus where
    shape: "m = event_created_msg bus current_user ?e
          \<or> (\<exists>created a.
                snd (check_and_create_alerts cfg ev (alerts w) (events w @ [?e]) (b_id bus) ?e)
                  = Inr created
                \<and> a \<in> set created \<and> m = alert_created_msg bus a)"
    by blast
  from shape tag obtain created a where
    created: "snd (persist_proposals ev (b_id bus)
        (evaluate_rules cfg (clock ev) (events w @ [?e]) (b_id bus) ?e) (alerts w)) = Inr created"
    and a: "a \<in> set created" and m: "m = alert_created_msg bus a"
    by (auto simp: event_created_msg_def check_and_create_alerts_def)
  from persist_proposals_created [OF created a]
  obtain p where "p \<in> set (evaluate_rules cfg (clock ev) (events w @ [?e]) (b_id bus) ?e)"
    and "a_tipo a = pr_tipo p" and "a_nivel a = pr_nivel p"
    by blast
  with evaluate_rules_pairs [OF this(1)]
  have "(a_tipo a, a_nivel a) \<in> {(Repetido, Warn), (Muy_sucio, Critical), (Dudoso_recurrente, Info)}"
    by simp
  then show ?thesis
    by (auto simp: m alert_created_msg_def)
qed

lemma ingest_all_new_alerts:
  "a \<in> set (alerts (ingest_all cfg w submissions)) \<Longrightarrow> a \<notin> set (alerts w) \<Longrightarrow>
   (a_tipo a, a_nivel a) \<in> {(Repetido, Warn), (Muy_sucio, Critical), (Dudoso_recurrente, Info)}"
proof (induction submissions arbitrary: w)
  case Nil
  then show ?case by simp
next
  case (Cons s rest)
  obtain ev event_data current_user where s: "s = (ev, event_data, current_user)"
    by (cases s)
  let ?w1 = "fst (create_event (check_and_create_alerts cfg) ev w event_data current_user)"
  from Cons.prems(1) have final: "a \<in> set (alerts (ingest_all cfg ?w1 rest))"
    by (simp add: s)
  show ?case
  proof (cases "a \<in> set (alerts ?w1)")
    case True
    from create_event_new_alerts [OF True Cons.prems(2)] show ?thesis .
  next
    case False
    from Cons.IH [OF final False] show ?thesis .
  qed
qed

lemma ingest_all_alert_messages:
  "Broadcast m \<in> set (effects (ingest_all cfg w submissions)) \<Longrightarrow>
   Broadcast m \<notin> set (effects w) \<Longrightarrow> msg_type m = ''alert.created'' \<Longrightarrow>
   (map_of (msg_data m) ''tipo'', map_of (msg_data m) ''nivel'')
     \<in> {(Some (JStr ''repetido''), Some (JStr ''warn'')),
         (Some (JStr ''muy_sucio''), Some (JStr ''critical'')),
         (Some (JStr ''dudoso_recurrente''), Some (JStr ''info''))}"
proof (induction submissions arbitrary: w)
  case Nil
  then show ?case by simp
next
  case (Cons s rest)
  obtain ev event_data current_user where s: "s = (ev, event_data, current_user)"
    by (cases s)
  let ?w1 = "fst (create_event (check_and_create_alerts cfg) ev w event_data current_user)"
  from Cons.prems(1) have final: "Broadcast m \<in> set (effects (ingest_all cfg ?w1 rest))"
    by (simp add: s)
  show ?case
  proof (cases "Broadcast m \<in> set (effects ?w1)")
    case True
    from create_event_alert_messages [OF True Cons.prems(2,3)] show ?thesis .
  next
    case False
    from Cons.IH [OF final False Cons.prems(3)] show ?thesis .
  qed
qed

text \<open>
  Claim C8. Every alert that a sequence of submissions adds to the alert table
  carries one of the three kind and severity pairs of the rule table: \<open>repetido\<close>
  (the specification's repeated_dirty) with warn, \<open>muy_sucio\<close> (very_dirty) with
  critical, \<open>dudoso_recurrente\<close> (recurrent_uncertain) with info; every \<open>alert.created\<close>
  message those submissions broadcast carries the \<open>.value\<close> of one of these pairs in
  its \<open>tipo\<close> and \<open>nivel\<close> fields; and the kind and severity of any alert record are
  members of the two three-valued vocabularies.
\<close>

theorem alert_vocabulary:
  "(a \<in> set (alerts (ingest_all cfg w submissions)) \<and> a \<notin> set (alerts w) \<longrightarrow>
      (a_tipo a, a_nivel a) \<in> {(Repetido, Warn), (Muy_sucio, Critical), (Dudoso_recurrente, Info)})
   \<and> (Broadcast m \<in> set (effects (ingest_all cfg w submissions)) \<and> Broadcast m \<notin> set (effects w)
        \<and> msg_type m = ''alert.created'' \<longrightarrow>
      (map_of (msg_data m) ''tipo'', map_of (msg_data m) ''nivel'')
        \<in> {(Some (JStr ''repetido''), Some (JStr ''warn'')),
            (Some (JStr ''muy_sucio''), Some (JStr ''critical'')),
            (Some (JStr ''dudoso_recurrente''), Some (JStr ''info''))})
   \<and> a_tipo a' \<in> {Repetido, Muy_sucio, Dudoso_recurrente}
   \<and> a_nivel a' \<in> {Info, Warn, Critical}
   \<and> AlertType_value (a_tipo a') \<in> {''repetido'', ''muy_sucio'', ''dudoso_recurrente''}
   \<and> AlertLevel_value (a_nivel a') \<in> {''info'', ''warn'', ''critical''}"
proof -
  have kinds: "a_tipo a' \<in> {Repetido, Muy_sucio, Dudoso_recurrente}
      \<and> AlertType_value (a_tipo a') \<in> {''repetido'', ''muy_sucio'', ''dudoso_recurrente''}"
    by (cases "a_tipo a'") simp_all
  have levels: "a_nivel a' \<in> {Info, Warn, Critical}
      \<and> AlertLevel_value (a_nivel a') \<in> {''info'', ''warn'', ''critical''}"
    by (cases "a_nivel a'") simp_all
  from ingest_all_new_alerts [of a cfg w submissions]
    ingest_all_alert_messages [of m cfg w submissions] kinds levels
  show ?thesis by blast
qed

lemma two_dirty_run:
  "alerts (ingest_all default_config sample_world [dirty_at 1000, dirty_at 2000])
     = [\<lparr> a_id = 1, a_bus_id = 1, a_tipo = Repetido, a_nivel = Warn,
          a_detalle = ''repetido'', a_created_at = 2000,
          a_resolved_by = None, a_resolved_at = None \<rparr>]"
  "effects (ingest_all default_config sample_world [dirty_at 1000, dirty_at 2000])
     = [DbCommit (new_event (sample_env 1000) sample_world (sample_request 1 DIRTY (1 / 2) [])
                    sample_user),
        Broadcast \<lparr> msg_type = ''event.created'',
           msg_data = [(''id'', JInt 1), (''bus_id'', JInt 1), (''bus_ppu'', JStr ''ABCD12''),
             (''user_nombre'', JStr ''Ana''), (''estado'', JStr ''dirty''),
             (''confidence'', JNum (1 / 2)), (''created_at'', JTime 1000)] \<rparr>,
        AlertCheck 1 1,
        DbCommit \<lparr> e_id = 2, e_bus_id = 1, e_user_id = 7, e_estado = DIRTY,
           e_confidence = Some (1 / 2), e_observaciones = None, e_imagen_thumb_url = None,
           e_origen = Edge, e_issues = Some \<lparr> ip_issues = Some [], ip_suggestions = None \<rparr>,
           e_created_at = 2000 \<rparr>,
        Broadcast \<lparr> msg_type = ''event.created'',
           msg_data = [(''id'', JInt 2), (''bus_id'', JInt 1), (''bus_ppu'', JStr ''ABCD12''),
             (''user_nombre'', JStr ''Ana''), (''estado'', JStr ''dirty''),
             (''confidence'', JNum (1 / 2)), (''created_at'', JTime 2000)] \<rparr>,
        AlertCheck 1 2,
        Broadcast \<lparr> msg_type = ''alert.created'',
           msg_data = [(''id'', JInt 1), (''bus_id'', JInt 1), (''bus_ppu'', JStr ''ABCD12''),
             (''tipo'', JStr ''repetido''), (''nivel'', JStr ''warn''),
             (''detalle'', JStr ''repetido'')] \<rparr>]"
  by (simp_all add: dirty_at_def sample_defs run_defs engine_defs)

theorem alert_vocabulary_witness:
  "\<lparr> a_id = 1, a_bus_id = 1, a_tipo = Repetido, a_nivel = Warn,
          a_detalle = ''repetido'', a_created_at = 2000,
          a_resolved_by = None, a_resolved_at = None \<rparr>
     \<in> set (alerts (ingest_all default_config sample_world [dirty_at 1000, dirty_at 2000]))
   \<and> alerts sample_world = []
   \<and> Broadcast \<lparr> msg_type = ''alert.created'',
           msg_data = [(''id'', JInt 1), (''bus_id'', JInt 1), (''bus_ppu'', JStr ''ABCD12''),
             (''tipo'', JStr ''repetido''), (''nivel'', JStr ''warn''),
             (''detalle'', JStr ''repetido'')] \<rparr>
     \<in> set (effects (ingest_all default_config sample_world [dirty_at 1000, dirty_at 2000]))
   \<and> effects sample_world = []
   \<and> (Repetido, Warn) \<in> {(Repetido, Warn), (Muy_sucio, Critical), (Dudoso_recurrente, Info)}"
proof -
  have stored: "\<lparr> a_id = 1, a_bus_id = 1, a_tipo = Repetido, a_nivel = Warn,
          a_detalle = ''repetido'', a_created_at = 2000,
          a_resolved_by = None, a_resolved_at = None \<rparr>
     \<in> set (alerts (ingest_all default_config sample_world [dirty_at 1000, dirty_at 2000]))"
    unfolding two_dirty_run by simp
  have sent: "Broadcast \<lparr> msg_type = ''alert.created'',
           msg_data = [(''id'', JInt 1), (''bus_id'', JInt 1), (''bus_ppu'', JStr ''ABCD12''),
             (''tipo'', JStr ''repetido''), (''nivel'', JStr ''warn''),
             (''detalle'', JStr ''repetido'')] \<rparr>
     \<in> set (effects (ingest_all default_config sample_world [dirty_at 1000, dirty_at 2000]))"
    unfolding two_dirty_run by simp
  have empty: "alerts sample_world = []" "effects sample_world = []"
    by (simp_all add: sample_world_def)
  note pair = alert_vocabulary [where cfg = default_config and w = sample_world
      and submissions = "[dirty_at 1000, dirty_at 2000]"
      and a = "\<lparr> a_id = 1, a_bus_id = 1, a_tipo = Repetido, a_nivel = Warn,
          a_detalle = ''repetido'', a_created_at = 2000,
          a_resolved_by = None, a_resolved_at = None \<rparr>", THEN conjunct1, rule_format]
  have "(Repetido, Warn) \<in> {(Repetido, Warn), (Muy_sucio, Critical), (Dudoso_recurrente, Info)}"
    using pair [OF conjI [OF stored]] empty(1) by simp
  with stored sent empty show ?thesis by (intro conjI)
qed

end
